theory Spec2Isabelle
  imports Complex_Main "HOL-Library.AList" "HOL-Library.Log_Nat"
begin

section \<open>Data model\<close>

text \<open>
  The tax pipeline of \<^verbatim>\<open>express-api/index.js\<close> works on plain JavaScript objects. The
  embedding keeps the fields the code reads, each with the type the data model gives it. A
  field that is missing is \<open>None\<close>. A JavaScript number is the rational it denotes; \<^verbatim>\<open>NaN\<close>
  and the infinities are outside the model. The calculators of the first sections compute
  every product exactly, which is its value before the rounding of IEEE doubles; the NFE
  calculator with that rounding is the subject of a section of its own. A string is a list
  of code units, one \<open>char\<close> each.
\<close>

datatype error =
  TypeError string
  | SyntaxError
  | ServiceError string
  | Error string
  | Unmodelled string

record TaxInfo =
  serviceCode :: "string option"
  ipiCategory :: "string option"
  regime :: "string option"

record DocumentRecord =
  documentType :: "string option"
  totalValue :: "rat option"
  operationType :: "string option"
  state :: "string option"
  municipality :: "string option"
  taxInfo :: "TaxInfo option"

text \<open>A retrieved rule: a \<^verbatim>\<open>Document\<close> of the vector store, \<^verbatim>\<open>{pageContent, metadata: {source}}\<close>.\<close>

record TaxRule =
  pageContent :: string
  source :: string

text \<open>
  The object a calculator returns, \<^verbatim>\<open>{baseValue, taxes: {...}}\<close>. The \<^verbatim>\<open>taxes\<close> object is
  an association list in the insertion order of its keys.
\<close>

record TaxCalculation =
  baseValue :: rat
  taxes :: "(string \<times> rat) list"

record ICMSRates =
  standard :: rat
  reduced :: rat

section \<open>JavaScript operators used by the calculators\<close>

text \<open>\<^verbatim>\<open>x || d\<close> on a number: \<^verbatim>\<open>undefined\<close> and \<^verbatim>\<open>0\<close> are falsy.\<close>

definition orNumber :: "rat option \<Rightarrow> rat \<Rightarrow> rat" where
  "orNumber x d = (case x of None \<Rightarrow> d | Some v \<Rightarrow> if v = 0 then d else v)"

text \<open>\<^verbatim>\<open>x || d\<close> on a string: \<^verbatim>\<open>undefined\<close> and the empty string are falsy.\<close>

definition orString :: "string option \<Rightarrow> string \<Rightarrow> string" where
  "orString x d = (case x of None \<Rightarrow> d | Some s \<Rightarrow> if s = [] then d else s)"

text \<open>\<^verbatim>\<open>documentData.taxInfo?.key\<close>: \<^verbatim>\<open>undefined\<close> when \<^verbatim>\<open>taxInfo\<close> is missing.\<close>

definition taxInfoField :: "(TaxInfo \<Rightarrow> string option) \<Rightarrow> DocumentRecord \<Rightarrow> string option" where
  "taxInfoField f documentData = (case taxInfo documentData of None \<Rightarrow> None | Some t \<Rightarrow> f t)"

text \<open>
  \<^verbatim>\<open>String.prototype.toLowerCase\<close> on code units below 256: the ASCII capitals and the
  Latin-1 capitals \<open>0xC0\<close> to \<open>0xDE\<close> (without the multiplication sign \<open>0xD7\<close>) move up
  by \<open>0x20\<close>.
\<close>

definition lowerChar :: "char \<Rightarrow> char" where
  "lowerChar c =
     (let n = (of_char c :: nat)
      in if (65 \<le> n \<and> n \<le> 90) \<or> (192 \<le> n \<and> n \<le> 222 \<and> n \<noteq> 215)
         then char_of (n + 32) else c)"

definition toLowerCase :: "string \<Rightarrow> string" where
  "toLowerCase s = map lowerChar s"

text \<open>
  The municipality literals as the source file holds them: after the first letter come the
  code units \<open>0xC3\<close> and \<open>0xA3\<close>.
\<close>

definition SaoPaulo :: string where
  "SaoPaulo = CHR ''S'' # CHR 0xC3 # CHR 0xA3 # ''o Paulo''"

definition saoPauloLower :: string where
  "saoPauloLower = CHR ''s'' # CHR 0xC3 # CHR 0xA3 # ''o paulo''"

section \<open>Rate tables\<close>

definition getICMSRates :: "string \<Rightarrow> string \<Rightarrow> ICMSRates" where
  "getICMSRates st operation =
     (if st = ''SP'' \<and> operation = ''VENDA'' then \<lparr>standard = 18, reduced = 12\<rparr>
      else if st = ''RJ'' then \<lparr>standard = 20, reduced = 13\<rparr>
      else \<lparr>standard = 18, reduced = 12\<rparr>)"

definition getISSRate :: "string \<Rightarrow> string \<Rightarrow> rat" where
  "getISSRate muni code = (if toLowerCase muni = saoPauloLower then 5 else 3)"

definition calculateIPI :: "DocumentRecord \<Rightarrow> rat" where
  "calculateIPI documentData =
     (if taxInfoField ipiCategory documentData = Some ''basic''
      then orNumber (totalValue documentData) 0 * (4 / 100)
      else 0)"

section \<open>Calculators\<close>

text \<open>
  The four calculators with every product computed exactly: the amounts before rounding.
  Sign and order of the amounts, and the halving of the regime adjustment, are read off
  these; the amounts the NFE calculator returns as doubles follow in the next section.
\<close>

definition calculateNFETaxes :: "DocumentRecord \<Rightarrow> TaxRule list \<Rightarrow> TaxCalculation" where
  "calculateNFETaxes documentData taxRules =
     (let base = orNumber (totalValue documentData) 0;
          st = orString (state documentData) ''SP'';
          operation = orString (operationType documentData) ''VENDA'';
          icmsRates = getICMSRates st operation
      in \<lparr>baseValue = base,
          taxes = [(''ICMS'', base * (standard icmsRates / 100)),
                   (''IPI'', calculateIPI documentData),
                   (''PIS'', base * (165 / 10000)),
                   (''COFINS'', base * (76 / 1000))]\<rparr>)"

definition calculateNFSETaxes :: "DocumentRecord \<Rightarrow> TaxRule list \<Rightarrow> TaxCalculation" where
  "calculateNFSETaxes documentData taxRules =
     (let base = orNumber (totalValue documentData) 0;
          muni = orString (municipality documentData) SaoPaulo;
          code = orString (taxInfoField serviceCode documentData) ''1001'';
          issRate = getISSRate muni code
      in \<lparr>baseValue = base,
          taxes = [(''ISS'', base * (issRate / 100)),
                   (''PIS'', base * (165 / 10000)),
                   (''COFINS'', base * (76 / 1000))]\<rparr>)"

definition calculateNFCETaxes :: "DocumentRecord \<Rightarrow> TaxRule list \<Rightarrow> TaxCalculation" where
  "calculateNFCETaxes documentData taxRules =
     (let base = orNumber (totalValue documentData) 0;
          st = orString (state documentData) ''SP'';
          operation = orString (operationType documentData) ''VENDA'';
          icmsRates = getICMSRates st operation
      in \<lparr>baseValue = base,
          taxes = [(''ICMS'', base * (reduced icmsRates / 100)),
                   (''PIS'', base * (165 / 10000)),
                   (''COFINS'', base * (76 / 1000))]\<rparr>)"

definition calculateCTETaxes :: "DocumentRecord \<Rightarrow> TaxRule list \<Rightarrow> TaxCalculation" where
  "calculateCTETaxes documentData taxRules =
     (let base = orNumber (totalValue documentData) 0
      in \<lparr>baseValue = base, taxes = [(''ICMS'', base * (12 / 100))]\<rparr>)"

section \<open>The NFE calculator in double arithmetic\<close>

text \<open>
  A JavaScript number is an IEEE 754 double, and \<^verbatim>\<open>*\<close> and \<^verbatim>\<open>/\<close> round the exact result to
  the nearest double, ties to the even significand. \<open>roundDouble\<close> is that rounding on the
  rationals: a significand of 53 bits, and below \<open>2 ^ -1022\<close> the fixed spacing \<open>2 ^ -1074\<close>
  of the subnormal numbers. Overflow to infinity is not modelled; the calculator multiplies
  by factors below one, so a finite total value cannot overflow.
\<close>

definition pow2 :: "int \<Rightarrow> rat" where
  "pow2 k = (if 0 \<le> k then 2 ^ nat k else 1 / 2 ^ nat (- k))"

text \<open>The integer part of the binary logarithm of a positive rational.\<close>

definition floorLog2 :: "rat \<Rightarrow> int" where
  "floorLog2 a = (if 1 \<le> a then bitlen \<lfloor>a\<rfloor> - 1 else - bitlen (\<lceil>1 / a\<rceil> - 1))"

definition roundHalfEven :: "rat \<Rightarrow> int" where
  "roundHalfEven m =
     (let f = \<lfloor>m\<rfloor>; r = m - of_int f
      in if r < 1 / 2 then f else if 1 / 2 < r then f + 1 else if even f then f else f + 1)"

definition roundDouble :: "rat \<Rightarrow> rat" where
  "roundDouble x =
     (if x = 0 then 0
      else (let a = \<bar>x\<bar>;
                q = max (floorLog2 a - 52) (- 1074);
                n = roundHalfEven (a / pow2 q)
            in sgn x * of_int n * pow2 q))"

text \<open>\<^verbatim>\<open>a * b\<close> and \<^verbatim>\<open>a / b\<close> on doubles; a decimal literal is the double nearest to it.\<close>

definition multiplyDouble :: "rat \<Rightarrow> rat \<Rightarrow> rat" where
  "multiplyDouble a b = roundDouble (a * b)"

definition divideDouble :: "rat \<Rightarrow> rat \<Rightarrow> rat" where
  "divideDouble a b = roundDouble (a / b)"

definition calculateIPI_double :: "DocumentRecord \<Rightarrow> rat" where
  "calculateIPI_double documentData =
     (if taxInfoField ipiCategory documentData = Some ''basic''
      then multiplyDouble (orNumber (totalValue documentData) 0) (roundDouble (4 / 100))
      else 0)"

definition calculateNFETaxes_double :: "DocumentRecord \<Rightarrow> TaxRule list \<Rightarrow> TaxCalculation" where
  "calculateNFETaxes_double documentData taxRules =
     (let base = orNumber (totalValue documentData) 0;
          st = orString (state documentData) ''SP'';
          operation = orString (operationType documentData) ''VENDA'';
          icmsRates = getICMSRates st operation
      in \<lparr>baseValue = base,
          taxes = [(''ICMS'', multiplyDouble base (divideDouble (standard icmsRates) 100)),
                   (''IPI'', calculateIPI_double documentData),
                   (''PIS'', multiplyDouble base (roundDouble (165 / 10000))),
                   (''COFINS'', multiplyDouble base (roundDouble (76 / 1000)))]\<rparr>)"

section \<open>Calculator registry and regime adjustment\<close>

text \<open>
  \<^verbatim>\<open>taxCalculations\<close> is an object literal, so \<^verbatim>\<open>taxCalculations[key]\<close> finds its four own
  properties and, for any other key, the properties it inherits from
  \<^verbatim>\<open>Object.prototype\<close>.
\<close>

datatype member =
  Own "DocumentRecord \<Rightarrow> TaxRule list \<Rightarrow> TaxCalculation"
  | Inherited string

definition objectPrototypeKeys :: "string list" where
  "objectPrototypeKeys =
     [''constructor'', ''__defineGetter__'', ''__defineSetter__'', ''hasOwnProperty'',
      ''__lookupGetter__'', ''__lookupSetter__'', ''isPrototypeOf'',
      ''propertyIsEnumerable'', ''toString'', ''valueOf'', ''__proto__'',
      ''toLocaleString'']"

definition taxCalculations :: "string \<Rightarrow> member option" where
  "taxCalculations key =
     (if key = ''NFE'' then Some (Own calculateNFETaxes)
      else if key = ''NFSE'' then Some (Own calculateNFSETaxes)
      else if key = ''NFCE'' then Some (Own calculateNFCETaxes)
      else if key = ''CTE'' then Some (Own calculateCTETaxes)
      else if key \<in> set objectPrototypeKeys then Some (Inherited key)
      else None)"

text \<open>The property key of \<^verbatim>\<open>documentData.documentType\<close>: a missing field reads \<^verbatim>\<open>undefined\<close>.\<close>

definition propertyKey :: "string option \<Rightarrow> string" where
  "propertyKey x = (case x of None \<Rightarrow> ''undefined'' | Some s \<Rightarrow> s)"

text \<open>
  \<^verbatim>\<open>taxCalculations[documentData.documentType] || calculateNFETaxes\<close>: every member found is
  truthy, so the default is taken only when the lookup finds nothing.
\<close>

definition selectCalculator :: "DocumentRecord \<Rightarrow> member" where
  "selectCalculator documentData =
     (case taxCalculations (propertyKey (documentType documentData)) of
        None \<Rightarrow> Own calculateNFETaxes
      | Some m \<Rightarrow> m)"

text \<open>
  What \<^verbatim>\<open>calculator(documentData, taxRules)\<close> evaluates to. An inherited member is called
  with \<^verbatim>\<open>this\<close> undefined (the file is a module): \<^verbatim>\<open>Object\<close> returns its argument,
  \<^verbatim>\<open>toString\<close> returns a text, \<^verbatim>\<open>__proto__\<close> is not a function and the other methods
  throw on the missing receiver.
\<close>

datatype jsresult =
  Calculation TaxCalculation
  | TheDocument DocumentRecord
  | Text string

definition callCalculator :: "member \<Rightarrow> DocumentRecord \<Rightarrow> TaxRule list \<Rightarrow> error + jsresult" where
  "callCalculator m documentData taxRules =
     (case m of
        Own f \<Rightarrow> Inr (Calculation (f documentData taxRules))
      | Inherited key \<Rightarrow>
          if key = ''constructor'' then Inr (TheDocument documentData)
          else if key = ''toString'' then Inr (Text ''[object Undefined]'')
          else Inl (TypeError key))"

text \<open>
  \<^verbatim>\<open>applySpecialRegimes\<close>: under \<^verbatim>\<open>Simples Nacional\<close> the ICMS entry, when defined, is
  multiplied by \<^verbatim>\<open>0.5\<close>. A base value without a \<^verbatim>\<open>taxes\<close> object makes
  \<^verbatim>\<open>newCalc.taxes.ICMS\<close> throw.
\<close>

definition applySpecialRegimes ::
    "jsresult \<Rightarrow> DocumentRecord \<Rightarrow> TaxRule list \<Rightarrow> error + jsresult" where
  "applySpecialRegimes baseCalculation documentData taxRules =
     (if taxInfoField regime documentData = Some ''Simples Nacional'' then
        (case baseCalculation of
           Calculation c \<Rightarrow>
             (case map_of (taxes c) ''ICMS'' of
                None \<Rightarrow> Inr (Calculation c)
              | Some v \<Rightarrow>
                  Inr (Calculation (c\<lparr>taxes := AList.update ''ICMS'' (v * (1 / 2)) (taxes c)\<rparr>)))
         | TheDocument d \<Rightarrow> Inl (TypeError ''taxes'')
         | Text s \<Rightarrow> Inl (TypeError ''taxes''))
      else Inr baseCalculation)"

definition calculateTaxesWithRules :: "DocumentRecord \<Rightarrow> TaxRule list \<Rightarrow> error + jsresult" where
  "calculateTaxesWithRules documentData taxRules =
     (case callCalculator (selectCalculator documentData) documentData taxRules of
        Inl e \<Rightarrow> Inl e
      | Inr baseCalculation \<Rightarrow> applySpecialRegimes baseCalculation documentData taxRules)"

section \<open>Parsed service output\<close>

text \<open>
  The value \<^verbatim>\<open>JSON.parse\<close> returns. An object is the list of its members in order.
\<close>

datatype json =
  JNull
  | JBool bool
  | JNum rat
  | JStr string
  | JArr "json list"
  | JObj "(string \<times> json) list"

text \<open>
  The text of \<^verbatim>\<open>message.content\<close>, by what the built-in \<^verbatim>\<open>JSON.parse\<close> makes of it:
  a text it rejects with a \<^verbatim>\<open>SyntaxError\<close>, or a JSON text together with the value it
  denotes. A \<^verbatim>\<open>null\<close> content is \<open>None\<close>.
\<close>

datatype messageText =
  NotJSON string
  | JSONText json

record message =
  content :: "messageText option"

record choice =
  message :: message

record completion =
  choices :: "choice list"

text \<open>
  The expression \<^verbatim>\<open>JSON.parse(completion.choices[0].message.content)\<close>: reading
  \<^verbatim>\<open>message\<close> of a missing first choice throws, a \<^verbatim>\<open>null\<close> content is parsed as the text
  \<^verbatim>\<open>null\<close>.
\<close>

definition parseContent :: "completion \<Rightarrow> error + json" where
  "parseContent c =
     (case choices c of
        [] \<Rightarrow> Inl (TypeError ''message'')
      | ch # rest \<Rightarrow>
          (case content (message ch) of
             None \<Rightarrow> Inr JNull
           | Some (NotJSON t) \<Rightarrow> Inl SyntaxError
           | Some (JSONText v) \<Rightarrow> Inr v))"

section \<open>Data extraction\<close>

definition defaultDocument :: json where
  "defaultDocument =
     JObj [(''documentType'', JStr ''NFE''),
           (''totalValue'', JNum 0),
           (''state'', JStr ''SP''),
           (''municipality'', JStr SaoPaulo),
           (''operationType'', JStr ''VENDA''),
           (''taxInfo'', JObj [])]"

text \<open>
  \<^verbatim>\<open>extractDocumentData\<close>. The chat call is awaited outside the \<^verbatim>\<open>try\<close>: its failure is
  the caller's. Inside the \<^verbatim>\<open>try\<close> any throw selects the default object; a value that
  parses is returned as it is. The calls of the logger are left out.
\<close>

definition extractDocumentData :: "(string \<Rightarrow> error + completion) \<Rightarrow> string \<Rightarrow> error + json" where
  "extractDocumentData create textractResponse =
     (case create textractResponse of
        Inl e \<Rightarrow> Inl e
      | Inr c \<Rightarrow>
          (case parseContent c of
             Inl jsonError \<Rightarrow> Inr defaultDocument
           | Inr parsedData \<Rightarrow> Inr parsedData))"

section \<open>Compliance validation\<close>

definition fallbackValidation :: json where
  "fallbackValidation =
     JObj [(''status'', JStr ''warning''),
           (''issues'', JArr [JStr ''Could not parse GPT response'']),
           (''suggestions'', JArr [])]"

definition validateCompliance ::
    "(json \<Rightarrow> TaxRule list \<Rightarrow> error + completion) \<Rightarrow> json \<Rightarrow> TaxRule list \<Rightarrow> error + json" where
  "validateCompliance create documentData taxRules =
     (case create documentData taxRules of
        Inl e \<Rightarrow> Inl e
      | Inr c \<Rightarrow>
          (case parseContent c of
             Inl jsonError \<Rightarrow> Inr fallbackValidation
           | Inr validationResult \<Rightarrow> Inr validationResult))"

text \<open>
  The shapes the specification gives the two results. A document record is an object
  whose \<^verbatim>\<open>documentType\<close> is one of the four types, whose \<^verbatim>\<open>totalValue\<close> is a number that is
  not negative, whose \<^verbatim>\<open>operationType\<close>, \<^verbatim>\<open>state\<close> and \<^verbatim>\<open>municipality\<close> are strings and
  whose \<^verbatim>\<open>taxInfo\<close> is an object. A compliance result is an object with a status out of
  \<^verbatim>\<open>ok\<close>, \<^verbatim>\<open>warning\<close>, \<^verbatim>\<open>error\<close> and two lists of strings.
\<close>

definition isString :: "json \<Rightarrow> bool" where
  "isString v = (case v of JStr s \<Rightarrow> True | _ \<Rightarrow> False)"

definition isStringList :: "json option \<Rightarrow> bool" where
  "isStringList v = (case v of Some (JArr xs) \<Rightarrow> list_all isString xs | _ \<Rightarrow> False)"

definition isDocumentRecord :: "json \<Rightarrow> bool" where
  "isDocumentRecord v =
     (case v of
        JObj fs \<Rightarrow>
          (case map_of fs ''documentType'' of
             Some (JStr t) \<Rightarrow> t \<in> set [''NFE'', ''NFSE'', ''NFCE'', ''CTE'']
           | _ \<Rightarrow> False)
          \<and> (case map_of fs ''totalValue'' of Some (JNum n) \<Rightarrow> 0 \<le> n | _ \<Rightarrow> False)
          \<and> (case map_of fs ''operationType'' of Some (JStr t) \<Rightarrow> True | _ \<Rightarrow> False)
          \<and> (case map_of fs ''state'' of Some (JStr t) \<Rightarrow> True | _ \<Rightarrow> False)
          \<and> (case map_of fs ''municipality'' of Some (JStr t) \<Rightarrow> True | _ \<Rightarrow> False)
          \<and> (case map_of fs ''taxInfo'' of Some (JObj t) \<Rightarrow> True | _ \<Rightarrow> False)
      | _ \<Rightarrow> False)"

definition isComplianceResult :: "json \<Rightarrow> bool" where
  "isComplianceResult v =
     (case v of
        JObj fs \<Rightarrow>
          (case map_of fs ''status'' of
             Some (JStr t) \<Rightarrow> t \<in> set [''ok'', ''warning'', ''error'']
           | _ \<Rightarrow> False)
          \<and> isStringList (map_of fs ''issues'')
          \<and> isStringList (map_of fs ''suggestions'')
      | _ \<Rightarrow> False)"

text \<open>A response parses as a record of the given shape when the parse returns such a value.\<close>

definition parsesAs :: "(json \<Rightarrow> bool) \<Rightarrow> completion \<Rightarrow> bool" where
  "parsesAs shape c = (case parseContent c of Inl e \<Rightarrow> False | Inr v \<Rightarrow> shape v)"

section \<open>Rule retrieval\<close>

text \<open>
  The collaborators of the pipeline are outside the repository and are parameters of the
  model. Each field gives the outcome of awaiting one call: \<open>Inl\<close> when the promise is
  rejected. \<open>vectorSearch texts query k\<close> stands for
  \<^verbatim>\<open>MemoryVectorStore.fromTexts\<close> on the texts and their sources followed by
  \<^verbatim>\<open>similaritySearch(query, k)\<close>.
\<close>

record services =
  detectDocumentText :: "string \<Rightarrow> error + string"
  structuringCompletion :: "string \<Rightarrow> error + completion"
  judgmentCompletion :: "json \<Rightarrow> TaxRule list \<Rightarrow> error + completion"
  braveSearch :: "string \<Rightarrow> error + TaxRule list"
  vectorSearch :: "(string \<times> string) list \<Rightarrow> string \<Rightarrow> nat \<Rightarrow> error + TaxRule list"
  dbRun :: "nat \<Rightarrow> json \<Rightarrow> error + unit"

definition andThen :: "error + 'a \<Rightarrow> ('a \<Rightarrow> error + 'b) \<Rightarrow> error + 'b" where
  "andThen r f = (case r of Inl e \<Rightarrow> Inl e | Inr v \<Rightarrow> f v)"

text \<open>
  The loop \<^verbatim>\<open>docs.forEach(doc => docTexts.push(doc.pageContent))\<close>. The splitter that
  \<^verbatim>\<open>processTaxRuleSearch\<close> constructs is never applied, so it has no part in the model.
\<close>

fun pushTexts :: "string list \<Rightarrow> TaxRule list \<Rightarrow> string list" where
  "pushTexts docTexts [] = docTexts"
| "pushTexts docTexts (doc # docs) = pushTexts (docTexts @ [pageContent doc]) docs"

definition processTaxRuleSearch :: "services \<Rightarrow> TaxRule list \<Rightarrow> string \<Rightarrow> error + TaxRule list" where
  "processTaxRuleSearch svc docs query =
     vectorSearch svc (zip (pushTexts [] docs) (map source docs)) query 5"

text \<open>A default parameter value replaces \<^verbatim>\<open>undefined\<close> only.\<close>

definition defaultParam :: "string option \<Rightarrow> string \<Rightarrow> string" where
  "defaultParam x d = (case x of None \<Rightarrow> d | Some s \<Rightarrow> s)"

text \<open>\<^verbatim>\<open>if (x) q += prefix + x\<close> for a string or \<^verbatim>\<open>null\<close>.\<close>

definition appendIfTruthy :: "string \<Rightarrow> string \<Rightarrow> string option \<Rightarrow> string" where
  "appendIfTruthy q prefix x =
     (case x of None \<Rightarrow> q | Some s \<Rightarrow> if s = [] then q else q @ prefix @ s)"

definition legislacaoTributaria :: string where
  "legislacaoTributaria =
     '' legisla'' @ [CHR 0xC3, CHR 0xA7, CHR 0xC3, CHR 0xA3] @ ''o tribut''
       @ [CHR 0xC3, CHR 0xA1] @ ''ria brasil ''"

definition searchQuery :: "string \<Rightarrow> string option \<Rightarrow> string option \<Rightarrow> string option \<Rightarrow> string" where
  "searchQuery query docType st sector =
     appendIfTruthy
       (appendIfTruthy (query @ legislacaoTributaria @ defaultParam docType ''NFE'') '' '' st)
       '' setor '' sector
     @ '' site:.gov.br OR site:legisweb.com.br OR site:confaz.fazenda.gov.br''"

text \<open>\<^verbatim>\<open>searchTaxRules\<close>: the \<^verbatim>\<open>catch\<close> logs the error and throws it again.\<close>

definition searchTaxRules ::
    "services \<Rightarrow> string \<Rightarrow> string option \<Rightarrow> string option \<Rightarrow> string option
      \<Rightarrow> error + TaxRule list" where
  "searchTaxRules svc query docType st sector =
     (case andThen (braveSearch svc (searchQuery query docType st sector))
             (\<lambda>docs. processTaxRuleSearch svc docs query) of
        Inl e \<Rightarrow> Inl e
      | Inr results \<Rightarrow> Inr results)"

section \<open>Pipeline\<close>

text \<open>
  The calculators read the parsed document through its properties. \<open>documentView\<close> is
  that reading for the values of the typed model: a property read on \<^verbatim>\<open>null\<close> throws, on
  a number, string, boolean or array it gives \<^verbatim>\<open>undefined\<close>. A property holding a value
  of another type than the record's is outside the model.
\<close>

definition property :: "json \<Rightarrow> string \<Rightarrow> json option" where
  "property v key = (case v of JObj fs \<Rightarrow> map_of fs key | _ \<Rightarrow> None)"

definition stringProperty :: "json \<Rightarrow> string \<Rightarrow> error + string option" where
  "stringProperty v key =
     (case property v key of
        None \<Rightarrow> Inr None
      | Some (JStr s) \<Rightarrow> Inr (Some s)
      | Some other \<Rightarrow> Inl (Unmodelled key))"

definition numberProperty :: "json \<Rightarrow> string \<Rightarrow> error + rat option" where
  "numberProperty v key =
     (case property v key of
        None \<Rightarrow> Inr None
      | Some JNull \<Rightarrow> Inr None
      | Some (JNum n) \<Rightarrow> Inr (Some n)
      | Some other \<Rightarrow> Inl (Unmodelled key))"

definition stringOf :: "json option \<Rightarrow> string option" where
  "stringOf x = (case x of Some (JStr s) \<Rightarrow> Some s | _ \<Rightarrow> None)"

definition taxInfoView :: "json \<Rightarrow> TaxInfo option" where
  "taxInfoView v =
     (case property v ''taxInfo'' of
        Some (JObj fs) \<Rightarrow>
          Some \<lparr>serviceCode = stringOf (map_of fs ''serviceCode''),
                ipiCategory = stringOf (map_of fs ''ipiCategory''),
                regime = stringOf (map_of fs ''regime'')\<rparr>
      | _ \<Rightarrow> None)"

definition documentView :: "json \<Rightarrow> error + DocumentRecord" where
  "documentView v =
     (case v of
        JNull \<Rightarrow> Inl (TypeError ''documentType'')
      | _ \<Rightarrow>
          andThen (stringProperty v ''documentType'') (\<lambda>dt.
          andThen (numberProperty v ''totalValue'') (\<lambda>total.
          andThen (stringProperty v ''operationType'') (\<lambda>operation.
          andThen (stringProperty v ''state'') (\<lambda>st.
          andThen (stringProperty v ''municipality'') (\<lambda>muni.
            Inr \<lparr>documentType = dt, totalValue = total, operationType = operation,
                 state = st, municipality = muni, taxInfo = taxInfoView v\<rparr>))))))"

record messageContext =
  userId :: "nat option"

record PipelineResult =
  documentData :: json
  taxCalculation :: jsresult
  complianceCheck :: json
  applicableRules :: "TaxRule list"

text \<open>\<^verbatim>\<open>storeDocumentInDb\<close> catches whatever the insert throws and returns nothing.\<close>

definition storeDocumentInDb :: "services \<Rightarrow> nat \<Rightarrow> json \<Rightarrow> unit" where
  "storeDocumentInDb svc uid doc = (case dbRun svc uid doc of Inl e \<Rightarrow> () | Inr u \<Rightarrow> ())"

text \<open>The template \<^verbatim>\<open>`${documentType} ${operationType} ${state}`\<close> of the rule query.\<close>

definition ruleQuery :: "DocumentRecord \<Rightarrow> string" where
  "ruleQuery d =
     propertyKey (documentType d) @ '' '' @ propertyKey (operationType d) @ '' ''
       @ propertyKey (state d)"

text \<open>
  \<^verbatim>\<open>processDocument\<close>: every stage is awaited inside one \<^verbatim>\<open>try\<close> whose \<^verbatim>\<open>catch\<close> logs the
  error and throws it again, so the first stage that fails decides the outcome.
\<close>

definition processDocument ::
    "services \<Rightarrow> string \<Rightarrow> string \<Rightarrow> messageContext \<Rightarrow> error + PipelineResult" where
  "processDocument svc buffer mimeType ctx =
     (case
        andThen (detectDocumentText svc buffer) (\<lambda>textractResponse.
        andThen (extractDocumentData (structuringCompletion svc) textractResponse) (\<lambda>doc.
        let stored = (case userId ctx of
                        None \<Rightarrow> ()
                      | Some uid \<Rightarrow> if uid = 0 then () else storeDocumentInDb svc uid doc)
        in
        andThen (documentView doc) (\<lambda>d.
        andThen (searchTaxRules svc (ruleQuery d) (documentType d) None None) (\<lambda>taxRules.
        andThen (calculateTaxesWithRules d taxRules) (\<lambda>calc.
        andThen (validateCompliance (judgmentCompletion svc) doc taxRules) (\<lambda>compliance.
          Inr \<lparr>documentData = doc, taxCalculation = calc, complianceCheck = compliance,
               applicableRules = taxRules\<rparr>)))))) of
        Inl e \<Rightarrow> Inl e
      | Inr result \<Rightarrow> Inr result)"

section \<open>NFe structure validation\<close>

text \<open>
  The fields \<^verbatim>\<open>validateNFeStructure\<close> reads of a parsed NFe. Its \<^verbatim>\<open>totalValue\<close> is named
  \<open>valorTotal\<close> here, the field name being taken by the document record; \<open>None\<close> stands
  for a missing value and for \<^verbatim>\<open>NaN\<close>.
\<close>

record Emitente =
  cnpj :: "string option"

record NFeData =
  chaveAcesso :: "string option"
  emitente :: "Emitente option"
  valorTotal :: "rat option"

text \<open>The body of the SEFAZ response, \<^verbatim>\<open>response.data\<close>.\<close>

record SefazData =
  valido :: bool
  detail :: string

text \<open>\<^verbatim>\<open>!x\<close> for a string or \<^verbatim>\<open>undefined\<close>, and for a number or \<^verbatim>\<open>undefined\<close>.\<close>

definition falsyString :: "string option \<Rightarrow> bool" where
  "falsyString x = (case x of None \<Rightarrow> True | Some s \<Rightarrow> s = [])"

definition falsyNumber :: "rat option \<Rightarrow> bool" where
  "falsyNumber x = (case x of None \<Rightarrow> True | Some n \<Rightarrow> n = 0)"

text \<open>
  A function that calls SEFAZ returns its outcome together with the requests it sent.
  \<open>get\<close> is the HTTP client: the outcome of \<^verbatim>\<open>axios.get(url)\<close>, with the response body
  when there is one.
\<close>

definition sefazUrl :: "string \<Rightarrow> string" where
  "sefazUrl chave = ''https://api.sefaz.gov.br/validaNFe?chave='' @ chave"

definition sefazRejected :: "string \<Rightarrow> error" where
  "sefazRejected chave =
     Error (''NFe n'' @ [CHR 0xE3] @ ''o foi validada pela SEFAZ: '' @ chave)"

definition validateNFeWithSEFAZ ::
    "(string \<Rightarrow> error + SefazData option) \<Rightarrow> string \<Rightarrow> (error + SefazData) \<times> string list" where
  "validateNFeWithSEFAZ get chave =
     (let url = sefazUrl chave
      in (case get url of
            Inl e \<Rightarrow> (Inl e, [url])
          | Inr None \<Rightarrow> (Inl (sefazRejected chave), [url])
          | Inr (Some d) \<Rightarrow>
              if valido d then (Inr d, [url]) else (Inl (sefazRejected chave), [url])))"

definition semChaveAcesso :: error where
  "semChaveAcesso = Error (''NFe sem chave de acesso v'' @ [CHR 0xE1] @ ''lida'')"

definition semCNPJ :: error where
  "semCNPJ = Error ''NFe sem CNPJ do emitente''"

definition valorInvalido :: error where
  "valorInvalido = Error (''NFe com valor total inv'' @ [CHR 0xE1] @ ''lido'')"

text \<open>\<^verbatim>\<open>nfeData.emitente?.cnpj\<close>.\<close>

definition emitenteCnpj :: "NFeData \<Rightarrow> string option" where
  "emitenteCnpj nfeData = (case emitente nfeData of None \<Rightarrow> None | Some e \<Rightarrow> cnpj e)"

text \<open>\<^verbatim>\<open>!x || x <= 0\<close> for a number or \<^verbatim>\<open>undefined\<close>.\<close>

definition invalidTotal :: "rat option \<Rightarrow> bool" where
  "invalidTotal x = (falsyNumber x \<or> (case x of None \<Rightarrow> False | Some n \<Rightarrow> n \<le> 0))"

definition validateNFeStructure ::
    "(string \<Rightarrow> error + SefazData option) \<Rightarrow> NFeData \<Rightarrow> (error + SefazData) \<times> string list" where
  "validateNFeStructure get nfeData =
     (case chaveAcesso nfeData of
        None \<Rightarrow> (Inl semChaveAcesso, [])
      | Some chave \<Rightarrow>
          if chave = [] then (Inl semChaveAcesso, [])
          else if falsyString (emitenteCnpj nfeData) then (Inl semCNPJ, [])
          else if invalidTotal (valorTotal nfeData) then (Inl valorInvalido, [])
          else validateNFeWithSEFAZ get chave)"

section \<open>The calculators on objects in a store\<close>

text \<open>
  \<^verbatim>\<open>applySpecialRegimes\<close> copies the base calculation with a spread, which copies the
  reference to its \<^verbatim>\<open>taxes\<close> object, and then assigns to \<^verbatim>\<open>newCalc.taxes.ICMS\<close>. What
  the registry does to the objects it is given is therefore stated on a store: a list of
  cells, an object's address being its index. The values a calculator computes are those
  of the functions above.
\<close>

type_synonym addr = nat

datatype cell =
  DocumentCell DocumentRecord
  | RulesCell "TaxRule list"
  | TaxesCell "(string \<times> rat) list"
  | CalculationCell rat addr
  | CharsCell string

type_synonym store = "cell list"

datatype jsvalue =
  Reference addr
  | Primitive string

definition cellAt :: "store \<Rightarrow> addr \<Rightarrow> cell option" where
  "cellAt s a = (if a < length s then Some (s ! a) else None)"

definition allocate :: "cell \<Rightarrow> store \<Rightarrow> addr \<times> store" where
  "allocate c s = (length s, s @ [c])"

text \<open>The object literal \<^verbatim>\<open>{ baseValue, taxes: { ... } }\<close> a calculator returns.\<close>

definition newCalculation :: "TaxCalculation \<Rightarrow> store \<Rightarrow> addr \<times> store" where
  "newCalculation c s =
     (let (t, s1) = allocate (TaxesCell (taxes c)) s
      in allocate (CalculationCell (baseValue c) t) s1)"

definition callCalculatorStore ::
    "member \<Rightarrow> addr \<Rightarrow> addr \<Rightarrow> store \<Rightarrow> (error + jsvalue) \<times> store" where
  "callCalculatorStore m d r s =
     (case (cellAt s d, cellAt s r) of
        (Some (DocumentCell doc), Some (RulesCell rules)) \<Rightarrow>
          (case m of
             Own f \<Rightarrow> (let (a, s1) = newCalculation (f doc rules) s in (Inr (Reference a), s1))
           | Inherited key \<Rightarrow>
               if key = ''constructor'' then (Inr (Reference d), s)
               else if key = ''toString'' then (Inr (Primitive ''[object Undefined]''), s)
               else (Inl (TypeError key), s))
      | _ \<Rightarrow> (Inl (Unmodelled ''arguments''), s))"

definition applySpecialRegimesStore ::
    "jsvalue \<Rightarrow> addr \<Rightarrow> addr \<Rightarrow> store \<Rightarrow> (error + jsvalue) \<times> store" where
  "applySpecialRegimesStore baseCalculation d r s =
     (case cellAt s d of
        Some (DocumentCell doc) \<Rightarrow>
          if taxInfoField regime doc = Some ''Simples Nacional'' then
            (case baseCalculation of
               Primitive text \<Rightarrow>
                 (let (n, s1) = allocate (CharsCell text) s in (Inl (TypeError ''taxes''), s1))
             | Reference b \<Rightarrow>
                 (case cellAt s b of
                    Some (CalculationCell bv t) \<Rightarrow>
                      (let (n, s1) = allocate (CalculationCell bv t) s
                       in (case cellAt s1 t of
                             Some (TaxesCell ts) \<Rightarrow>
                               (case map_of ts ''ICMS'' of
                                  None \<Rightarrow> (Inr (Reference n), s1)
                                | Some v \<Rightarrow>
                                    (Inr (Reference n),
                                     s1[t := TaxesCell (AList.update ''ICMS'' (v * (1 / 2)) ts)]))
                           | _ \<Rightarrow> (Inl (Unmodelled ''taxes''), s1)))
                  | Some (DocumentCell copied) \<Rightarrow>
                      (let (n, s1) = allocate (DocumentCell copied) s
                       in (Inl (TypeError ''taxes''), s1))
                  | _ \<Rightarrow> (Inl (Unmodelled ''baseCalculation''), s)))
          else (Inr baseCalculation, s)
      | _ \<Rightarrow> (Inl (Unmodelled ''documentData''), s))"

definition calculateTaxesWithRulesStore ::
    "addr \<Rightarrow> addr \<Rightarrow> store \<Rightarrow> (error + jsvalue) \<times> store" where
  "calculateTaxesWithRulesStore d r s =
     (case cellAt s d of
        Some (DocumentCell doc) \<Rightarrow>
          (case callCalculatorStore (selectCalculator doc) d r s of
             (Inl e, s1) \<Rightarrow> (Inl e, s1)
           | (Inr baseCalculation, s1) \<Rightarrow> applySpecialRegimesStore baseCalculation d r s1)
      | _ \<Rightarrow> (Inl (Unmodelled ''documentData''), s))"

text \<open>Reading a returned value back out of the store.\<close>

definition calculationAt :: "store \<Rightarrow> addr \<Rightarrow> TaxCalculation option" where
  "calculationAt s a =
     (case cellAt s a of
        Some (CalculationCell bv t) \<Rightarrow>
          (case cellAt s t of
             Some (TaxesCell ts) \<Rightarrow> Some \<lparr>baseValue = bv, taxes = ts\<rparr>
           | _ \<Rightarrow> None)
      | _ \<Rightarrow> None)"

definition resultAt :: "store \<Rightarrow> jsvalue \<Rightarrow> jsresult option" where
  "resultAt s v =
     (case v of
        Primitive text \<Rightarrow> Some (Text text)
      | Reference a \<Rightarrow>
          (case cellAt s a of
             Some (DocumentCell doc) \<Rightarrow> Some (TheDocument doc)
           | Some (CalculationCell bv t) \<Rightarrow> map_option Calculation (calculationAt s a)
           | _ \<Rightarrow> None))"

text \<open>The outcome of a call with its returned value read back: an error, or the result.\<close>

definition outcomeIn :: "(error + jsvalue) \<times> store \<Rightarrow> (error + jsresult) option" where
  "outcomeIn p =
     (case fst p of
        Inl e \<Rightarrow> Some (Inl e)
      | Inr v \<Rightarrow> map_option Inr (resultAt (snd p) v))"

section \<open>Orders on calculations\<close>

text \<open>Every amount is at least zero; entry by entry, the same tax with an amount no larger.\<close>

definition amountsNonNegative :: "TaxCalculation \<Rightarrow> bool" where
  "amountsNonNegative c = list_all (\<lambda>p. 0 \<le> snd p) (taxes c)"

definition amountsAtMost :: "TaxCalculation \<Rightarrow> TaxCalculation \<Rightarrow> bool" where
  "amountsAtMost c c' =
     list_all2 (\<lambda>p q. fst p = fst q \<and> snd p \<le> snd q) (taxes c) (taxes c')"

section \<open>Sample inputs\<close>

definition sampleDocument :: json where
  "sampleDocument =
     JObj [(''documentType'', JStr ''NFE''),
           (''totalValue'', JNum 1000),
           (''state'', JStr ''SP''),
           (''municipality'', JStr SaoPaulo),
           (''operationType'', JStr ''VENDA''),
           (''taxInfo'', JObj [])]"

definition sampleRecord :: DocumentRecord where
  "sampleRecord =
     \<lparr>documentType = Some ''NFE'', totalValue = Some 1000, operationType = Some ''VENDA'',
      state = Some ''SP'', municipality = Some SaoPaulo,
      taxInfo = Some \<lparr>serviceCode = None, ipiCategory = None, regime = None\<rparr>\<rparr>"

text \<open>The same document with a total value of 100.\<close>

definition hundredRecord :: DocumentRecord where
  "hundredRecord = sampleRecord\<lparr>totalValue := Some 100\<rparr>"

definition sampleCalculation :: TaxCalculation where
  "sampleCalculation =
     \<lparr>baseValue = 1000,
      taxes = [(''ICMS'', 180), (''IPI'', 0), (''PIS'', 165 / 10), (''COFINS'', 76)]\<rparr>"

text \<open>A completion with one choice whose message has the given content.\<close>

definition reply :: "messageText \<Rightarrow> completion" where
  "reply t = \<lparr>choices = [\<lparr>message = \<lparr>content = Some t\<rparr>\<rparr>]\<rparr>"

definition okValidation :: json where
  "okValidation =
     JObj [(''status'', JStr ''ok''), (''issues'', JArr []), (''suggestions'', JArr [])]"

text \<open>Collaborators that all answer, except that the search fails.\<close>

definition searchDown :: services where
  "searchDown =
     \<lparr>detectDocumentText = (\<lambda>buffer. Inr ''NOTA FISCAL ELETRONICA''),
      structuringCompletion = (\<lambda>text. Inr (reply (JSONText sampleDocument))),
      judgmentCompletion = (\<lambda>doc rules. Inr (reply (JSONText okValidation))),
      braveSearch = (\<lambda>q. Inl (ServiceError ''search unavailable'')),
      vectorSearch = (\<lambda>texts q k. Inr []),
      dbRun = (\<lambda>uid doc. Inr ())\<rparr>"

text \<open>The same collaborators with a search that answers with no document.\<close>

definition searchEmpty :: services where
  "searchEmpty = searchDown\<lparr>braveSearch := (\<lambda>q. Inr [])\<rparr>"

text \<open>Service replies that are JSON but have neither shape.\<close>

definition unreadableScan :: json where
  "unreadableScan = JObj [(''error'', JStr ''unreadable scan'')]"

definition compliantFlag :: json where
  "compliantFlag = JObj [(''compliant'', JBool True)]"

text \<open>A document whose type names a property every object inherits.\<close>

definition constructorDocument :: DocumentRecord where
  "constructorDocument =
     \<lparr>documentType = Some ''constructor'', totalValue = Some 1000,
      operationType = Some ''VENDA'', state = Some ''SP'', municipality = None,
      taxInfo = None\<rparr>"

text \<open>A retrieved page of 1500 characters.\<close>

definition longText :: string where
  "longText = replicate 1500 (CHR ''a'')"

definition longDocument :: TaxRule where
  "longDocument = \<lparr>pageContent = longText, source = ''https://www.gov.br/receitafederal''\<rparr>"

text \<open>A store holding a document under Simples Nacional, a rule list and a base calculation.\<close>

definition simplesRecord :: DocumentRecord where
  "simplesRecord =
     sampleRecord\<lparr>taxInfo :=
       Some \<lparr>serviceCode = None, ipiCategory = None, regime = Some ''Simples Nacional''\<rparr>\<rparr>"

definition sampleStore :: store where
  "sampleStore =
     [DocumentCell simplesRecord, RulesCell [], TaxesCell (taxes sampleCalculation),
      CalculationCell 1000 2]"

text \<open>Parsed NFe records and a SEFAZ that accepts every key.\<close>

definition sampleNFe :: NFeData where
  "sampleNFe =
     \<lparr>chaveAcesso = Some ''35200114200166000187550010000000071123456789'',
      emitente = Some \<lparr>cnpj = Some ''14200166000187''\<rparr>,
      valorTotal = Some 1000\<rparr>"

definition sefazAccepts :: "string \<Rightarrow> error + SefazData option" where
  "sefazAccepts url = Inr (Some \<lparr>valido = True, detail = ''autorizada''\<rparr>)"

section \<open>Lemmas on the operators and the registry\<close>

lemma falsyString_iff: "falsyString x = (x = None \<or> x = Some [])"
  by (simp add: falsyString_def split: option.splits)

lemma invalidTotal_iff: "invalidTotal x = (x = None \<or> (\<exists>n. x = Some n \<and> n \<le> 0))"
  by (auto simp: invalidTotal_def falsyNumber_def split: option.splits)

lemma pushTexts_map: "pushTexts acc docs = acc @ map pageContent docs"
  by (induction docs arbitrary: acc) simp_all

lemma selectCalculator_cases:
  "selectCalculator d = Own calculateNFETaxes \<or> selectCalculator d = Own calculateNFSETaxes
   \<or> selectCalculator d = Own calculateNFCETaxes \<or> selectCalculator d = Own calculateCTETaxes
   \<or> (\<exists>key. selectCalculator d = Inherited key)"
  by (simp add: selectCalculator_def taxCalculations_def)

lemma selectCalculator_totalValue:
  "selectCalculator (d\<lparr>totalValue := x\<rparr>) = selectCalculator d"
  by (simp add: selectCalculator_def)

lemma inherited_no_calculation:
  "selectCalculator d = Inherited key \<Longrightarrow> calculateTaxesWithRules d rules \<noteq> Inr (Calculation c)"
  by (auto simp: calculateTaxesWithRules_def callCalculator_def applySpecialRegimes_def)

lemma own_calculation:
  "selectCalculator d = Own f \<Longrightarrow>
     calculateTaxesWithRules d rules = applySpecialRegimes (Calculation (f d rules)) d rules"
  by (simp add: calculateTaxesWithRules_def callCalculator_def)

text \<open>
  For a document type that is neither one of the four own keys nor a key inherited from
  \<^verbatim>\<open>Object.prototype\<close>, and for a missing one, the registry runs the NFE calculator.
\<close>

lemma default_dispatch:
  assumes "propertyKey (documentType d) \<notin> set [''NFE'', ''NFSE'', ''NFCE'', ''CTE'']"
      and "propertyKey (documentType d) \<notin> set objectPrototypeKeys"
  shows "calculateTaxesWithRules d rules
           = applySpecialRegimes (Calculation (calculateNFETaxes d rules)) d rules"
  using assms
  by (simp add: calculateTaxesWithRules_def selectCalculator_def taxCalculations_def
      callCalculator_def)

lemma default_dispatch_sample:
  "propertyKey (documentType (sampleRecord\<lparr>documentType := Some ''DANFE''\<rparr>))
      \<notin> set [''NFE'', ''NFSE'', ''NFCE'', ''CTE'']
   \<and> propertyKey (documentType (sampleRecord\<lparr>documentType := Some ''DANFE''\<rparr>))
      \<notin> set objectPrototypeKeys
   \<and> calculateTaxesWithRules (sampleRecord\<lparr>documentType := Some ''DANFE''\<rparr>) []
       = Inr (Calculation sampleCalculation)"
proof -
  let ?d = "sampleRecord\<lparr>documentType := Some ''DANFE''\<rparr>"
  have a: "propertyKey (documentType ?d) \<notin> set [''NFE'', ''NFSE'', ''NFCE'', ''CTE'']"
    by (simp add: propertyKey_def)
  have b: "propertyKey (documentType ?d) \<notin> set objectPrototypeKeys"
    by (simp add: propertyKey_def objectPrototypeKeys_def)
  have "applySpecialRegimes (Calculation (calculateNFETaxes ?d [])) ?d []
          = Inr (Calculation sampleCalculation)"
    by (simp add: applySpecialRegimes_def taxInfoField_def calculateNFETaxes_def
        calculateIPI_def getICMSRates_def orNumber_def orString_def Let_def sampleRecord_def
        sampleCalculation_def)
  then show ?thesis
    using default_dispatch[OF a b, of "[]"] a b by simp
qed

text \<open>The other inherited keys: a text for \<^verbatim>\<open>toString\<close>, a \<^verbatim>\<open>TypeError\<close> for the rest.\<close>

lemma inherited_key_outcomes:
  "calculateTaxesWithRules (constructorDocument\<lparr>documentType := Some ''toString''\<rparr>) rules
     = Inr (Text ''[object Undefined]'')
   \<and> calculateTaxesWithRules (constructorDocument\<lparr>documentType := Some ''valueOf''\<rparr>) rules
     = Inl (TypeError ''valueOf'')
   \<and> calculateTaxesWithRules (constructorDocument\<lparr>documentType := Some ''__proto__''\<rparr>) rules
     = Inl (TypeError ''__proto__'')"
  by (simp add: calculateTaxesWithRules_def selectCalculator_def taxCalculations_def
      callCalculator_def constructorDocument_def propertyKey_def objectPrototypeKeys_def
      applySpecialRegimes_def taxInfoField_def)

lemma missing_type_dispatch:
  "documentType d = None \<Longrightarrow>
     calculateTaxesWithRules d rules
       = applySpecialRegimes (Calculation (calculateNFETaxes d rules)) d rules"
  by (rule default_dispatch) (simp_all add: propertyKey_def objectPrototypeKeys_def)

lemma applySpecialRegimes_value:
  "applySpecialRegimes (Calculation c) doc rules =
     (if taxInfoField regime doc = Some ''Simples Nacional'' then
        (case map_of (taxes c) ''ICMS'' of
           None \<Rightarrow> Inr (Calculation c)
         | Some v \<Rightarrow>
             Inr (Calculation (c\<lparr>taxes := AList.update ''ICMS'' (v * (1 / 2)) (taxes c)\<rparr>)))
      else Inr (Calculation c))"
  by (simp add: applySpecialRegimes_def)

lemma update_keeps_keys:
  "map_of ps k = Some w \<Longrightarrow> map fst (AList.update k v ps) = map fst ps"
  by (induction ps) (auto split: if_splits)

section \<open>Lemmas on the store\<close>

lemma cellAt_less: "cellAt s a = Some c \<Longrightarrow> a < length s"
  by (simp add: cellAt_def split: if_splits)

lemma cellAt_append: "a < length s \<Longrightarrow> cellAt (s @ xs) a = cellAt s a"
  by (simp add: cellAt_def nth_append)

lemma cellAt_prefix:
  assumes "take (length s) s1 = s" and "a < length s"
  shows "cellAt s1 a = cellAt s a"
proof -
  have "length (take (length s) s1) = length s"
    by (rule arg_cong[OF assms(1)])
  then have "length s \<le> length s1"
    by simp
  moreover have "s1 ! a = s ! a"
    using assms by (metis nth_take)
  ultimately show ?thesis
    using assms(2) by (simp add: cellAt_def)
qed

lemma newCalculation_cells:
  "newCalculation c s =
     (Suc (length s), s @ [TaxesCell (taxes c), CalculationCell (baseValue c) (length s)])"
  by (simp add: newCalculation_def allocate_def)

text \<open>
  The regime adjustment of a calculation object: the copy is a new cell that shares the
  \<^verbatim>\<open>taxes\<close> cell of the base, and the assignment changes that shared cell.
\<close>

lemma applySpecialRegimesStore_calculation:
  assumes d: "cellAt s d = Some (DocumentCell doc)"
      and b: "cellAt s b = Some (CalculationCell bv t)"
      and t: "cellAt s t = Some (TaxesCell ts)"
  shows "applySpecialRegimesStore (Reference b) d r s =
     (if taxInfoField regime doc = Some ''Simples Nacional'' then
        (case map_of ts ''ICMS'' of
           None \<Rightarrow> (Inr (Reference (length s)), s @ [CalculationCell bv t])
         | Some v \<Rightarrow>
             (Inr (Reference (length s)),
              (s @ [CalculationCell bv t])[t := TaxesCell (AList.update ''ICMS'' (v * (1 / 2)) ts)]))
      else (Inr (Reference b), s))"
  using assms cellAt_less[OF t]
  by (simp add: applySpecialRegimesStore_def allocate_def cellAt_append split: option.splits)

lemma own_refines:
  assumes d: "cellAt s d = Some (DocumentCell doc)" and r: "cellAt s r = Some (RulesCell rules)"
      and m: "selectCalculator doc = Own f"
  shows "outcomeIn (calculateTaxesWithRulesStore d r s) = Some (calculateTaxesWithRules doc rules)
       \<and> take (length s) (snd (calculateTaxesWithRulesStore d r s)) = s"
proof -
  let ?c = "f doc rules"
  let ?s1 = "s @ [TaxesCell (taxes ?c), CalculationCell (baseValue ?c) (length s)]"
  have dlt: "d < length s" using d by (rule cellAt_less)
  have call: "callCalculatorStore (Own f) d r s = (Inr (Reference (Suc (length s))), ?s1)"
    using d r by (simp add: callCalculatorStore_def newCalculation_cells)
  have d1: "cellAt ?s1 d = Some (DocumentCell doc)"
    using d dlt by (simp add: cellAt_append)
  have b1: "cellAt ?s1 (Suc (length s)) = Some (CalculationCell (baseValue ?c) (length s))"
    by (simp add: cellAt_def nth_append)
  have t1: "cellAt ?s1 (length s) = Some (TaxesCell (taxes ?c))"
    by (simp add: cellAt_def nth_append)
  have step: "calculateTaxesWithRulesStore d r s
      = applySpecialRegimesStore (Reference (Suc (length s))) d r ?s1"
    using d m call by (simp add: calculateTaxesWithRulesStore_def)
  have pure: "calculateTaxesWithRules doc rules = applySpecialRegimes (Calculation ?c) doc rules"
    using m by (rule own_calculation)
  show ?thesis
    unfolding step pure applySpecialRegimesStore_calculation[OF d1 b1 t1]
      applySpecialRegimes_value
    by (cases ?c)
       (auto simp: outcomeIn_def resultAt_def calculationAt_def cellAt_def nth_append
          split: option.splits)
qed

lemma inherited_refines:
  assumes d: "cellAt s d = Some (DocumentCell doc)" and r: "cellAt s r = Some (RulesCell rules)"
      and m: "selectCalculator doc = Inherited key"
  shows "outcomeIn (calculateTaxesWithRulesStore d r s) = Some (calculateTaxesWithRules doc rules)
       \<and> take (length s) (snd (calculateTaxesWithRulesStore d r s)) = s"
  using assms cellAt_less[OF d]
  by (auto simp: calculateTaxesWithRulesStore_def callCalculatorStore_def
        calculateTaxesWithRules_def callCalculator_def applySpecialRegimesStore_def
        applySpecialRegimes_def outcomeIn_def resultAt_def allocate_def)

text \<open>
  The registry on a store computes the value of \<open>calculateTaxesWithRules\<close> and leaves
  every cell that existed before the call as it was.
\<close>

lemma store_refines:
  assumes d: "cellAt s d = Some (DocumentCell doc)" and r: "cellAt s r = Some (RulesCell rules)"
  shows "outcomeIn (calculateTaxesWithRulesStore d r s) = Some (calculateTaxesWithRules doc rules)
       \<and> take (length s) (snd (calculateTaxesWithRulesStore d r s)) = s"
  by (cases "selectCalculator doc") (simp_all add: own_refines[OF d r] inherited_refines[OF d r])

section \<open>Lemmas on the sample inputs\<close>

lemma sample_view: "documentView sampleDocument = Inr sampleRecord"
  by (simp add: documentView_def sampleDocument_def sampleRecord_def andThen_def
      stringProperty_def numberProperty_def property_def taxInfoView_def stringOf_def)

lemma sample_extract:
  "extractDocumentData (structuringCompletion searchDown) ''NOTA FISCAL ELETRONICA''
     = Inr sampleDocument"
  by (simp add: extractDocumentData_def searchDown_def reply_def parseContent_def)

lemma sample_is_record: "isDocumentRecord sampleDocument"
  by (simp add: isDocumentRecord_def sampleDocument_def)

lemma sample_calculation: "calculateTaxesWithRules sampleRecord [] = Inr (Calculation sampleCalculation)"
  by (simp add: calculateTaxesWithRules_def selectCalculator_def taxCalculations_def
      propertyKey_def callCalculator_def applySpecialRegimes_def taxInfoField_def
      calculateNFETaxes_def calculateIPI_def getICMSRates_def orNumber_def orString_def
      Let_def sampleRecord_def sampleCalculation_def)

lemma searchDown_fails:
  "searchTaxRules searchDown q t st sector = Inl (ServiceError ''search unavailable'')"
  by (simp add: searchTaxRules_def searchDown_def andThen_def)

text \<open>A run in which every collaborator answers returns the assembled result.\<close>

lemma processDocument_sample_run:
  "processDocument searchEmpty ''%PDF'' ''application/pdf'' \<lparr>userId = Some 7\<rparr>
     = Inr \<lparr>documentData = sampleDocument,
            taxCalculation = Calculation sampleCalculation,
            complianceCheck = okValidation,
            applicableRules = []\<rparr>"
proof -
  have t: "detectDocumentText searchEmpty ''%PDF'' = Inr ''NOTA FISCAL ELETRONICA''"
    by (simp add: searchEmpty_def searchDown_def)
  have e: "extractDocumentData (structuringCompletion searchEmpty) ''NOTA FISCAL ELETRONICA''
             = Inr sampleDocument"
    by (simp add: extractDocumentData_def searchEmpty_def searchDown_def reply_def
        parseContent_def)
  have s: "searchTaxRules searchEmpty q ty None None = Inr []" for q ty
    by (simp add: searchTaxRules_def searchEmpty_def searchDown_def andThen_def
        processTaxRuleSearch_def)
  have v: "validateCompliance (judgmentCompletion searchEmpty) sampleDocument [] = Inr okValidation"
    by (simp add: validateCompliance_def searchEmpty_def searchDown_def reply_def
        parseContent_def)
  show ?thesis
    by (simp add: processDocument_def andThen_def Let_def t e sample_view s
        sample_calculation v)
qed

section \<open>Lemmas on the amounts\<close>

lemma scaled_amounts:
  assumes "0 \<le> v" and "v \<le> w" and "(0::rat) \<le> k"
  shows "0 \<le> orNumber (Some v) 0 * k \<and> orNumber (Some v) 0 * k \<le> orNumber (Some w) 0 * k"
proof -
  have "0 \<le> orNumber (Some v) 0" and "orNumber (Some v) 0 \<le> orNumber (Some w) 0"
    using assms(1,2) by (simp_all add: orNumber_def)
  then show ?thesis
    using assms(3) by (simp add: mult_right_mono)
qed

lemma NFE_amounts:
  assumes "0 \<le> v" and "v \<le> w"
      and "applySpecialRegimes (Calculation (calculateNFETaxes (d\<lparr>totalValue := Some v\<rparr>) r))
             (d\<lparr>totalValue := Some v\<rparr>) r = Inr (Calculation c)"
      and "applySpecialRegimes (Calculation (calculateNFETaxes (d\<lparr>totalValue := Some w\<rparr>) r'))
             (d\<lparr>totalValue := Some w\<rparr>) r' = Inr (Calculation c')"
  shows "amountsNonNegative c \<and> amountsAtMost c c'"
proof -
  note m = scaled_amounts[OF assms(1,2)]
  show ?thesis
    using assms(3,4) m[of "165 / 10000"] m[of "76 / 1000"] m[of "4 / 100"] m[of "18 / 100"]
      m[of "20 / 100"] m[of "18 / 200"] m[of "20 / 200"]
    by (auto simp: applySpecialRegimes_def calculateNFETaxes_def calculateIPI_def
        getICMSRates_def taxInfoField_def Let_def amountsNonNegative_def amountsAtMost_def
        split: if_splits)
qed

lemma NFSE_amounts:
  assumes "0 \<le> v" and "v \<le> w"
      and "applySpecialRegimes (Calculation (calculateNFSETaxes (d\<lparr>totalValue := Some v\<rparr>) r))
             (d\<lparr>totalValue := Some v\<rparr>) r = Inr (Calculation c)"
      and "applySpecialRegimes (Calculation (calculateNFSETaxes (d\<lparr>totalValue := Some w\<rparr>) r'))
             (d\<lparr>totalValue := Some w\<rparr>) r' = Inr (Calculation c')"
  shows "amountsNonNegative c \<and> amountsAtMost c c'"
proof -
  note m = scaled_amounts[OF assms(1,2)]
  show ?thesis
    using assms(3,4) m[of "165 / 10000"] m[of "76 / 1000"] m[of "5 / 100"] m[of "3 / 100"]
    by (auto simp: applySpecialRegimes_def calculateNFSETaxes_def getISSRate_def
        taxInfoField_def Let_def amountsNonNegative_def amountsAtMost_def
        split: if_splits)
qed

lemma NFCE_amounts:
  assumes "0 \<le> v" and "v \<le> w"
      and "applySpecialRegimes (Calculation (calculateNFCETaxes (d\<lparr>totalValue := Some v\<rparr>) r))
             (d\<lparr>totalValue := Some v\<rparr>) r = Inr (Calculation c)"
      and "applySpecialRegimes (Calculation (calculateNFCETaxes (d\<lparr>totalValue := Some w\<rparr>) r'))
             (d\<lparr>totalValue := Some w\<rparr>) r' = Inr (Calculation c')"
  shows "amountsNonNegative c \<and> amountsAtMost c c'"
proof -
  note m = scaled_amounts[OF assms(1,2)]
  show ?thesis
    using assms(3,4) m[of "165 / 10000"] m[of "76 / 1000"] m[of "12 / 100"] m[of "13 / 100"]
      m[of "12 / 200"] m[of "13 / 200"]
    by (auto simp: applySpecialRegimes_def calculateNFCETaxes_def getICMSRates_def
        taxInfoField_def Let_def amountsNonNegative_def amountsAtMost_def
        split: if_splits)
qed

lemma CTE_amounts:
  assumes "0 \<le> v" and "v \<le> w"
      and "applySpecialRegimes (Calculation (calculateCTETaxes (d\<lparr>totalValue := Some v\<rparr>) r))
             (d\<lparr>totalValue := Some v\<rparr>) r = Inr (Calculation c)"
      and "applySpecialRegimes (Calculation (calculateCTETaxes (d\<lparr>totalValue := Some w\<rparr>) r'))
             (d\<lparr>totalValue := Some w\<rparr>) r' = Inr (Calculation c')"
  shows "amountsNonNegative c \<and> amountsAtMost c c'"
proof -
  note m = scaled_amounts[OF assms(1,2)]
  show ?thesis
    using assms(3,4) m[of "12 / 100"] m[of "12 / 200"]
    by (auto simp: applySpecialRegimes_def calculateCTETaxes_def
        taxInfoField_def Let_def amountsNonNegative_def amountsAtMost_def
        split: if_splits)
qed

text \<open>A document whose type selects one of the four calculators always gets a calculation.\<close>

lemma own_gives_calculation:
  "selectCalculator d = Own f \<Longrightarrow> \<exists>c. calculateTaxesWithRules d rules = Inr (Calculation c)"
  by (simp add: own_calculation applySpecialRegimes_value split: option.splits)

section \<open>Lemmas on double arithmetic\<close>

text \<open>The literals of the calculator and the products of the two sample documents.\<close>

lemma double_literals:
  "roundDouble (4 / 100) = 5764607523034235 / 2 ^ 57"
  "roundDouble (165 / 10000) = 1188950301625811 / 2 ^ 56"
  "roundDouble (76 / 1000) = 5476377146882523 / 2 ^ 56"
  "roundDouble (18 / 100) = 6485183463413514 / 2 ^ 55"
  by code_simp+

text \<open>The same values with their fractions in lowest terms.\<close>

lemma double_lowest_terms:
  "roundDouble (1 / 25) = 5764607523034235 / 2 ^ 57"
  "roundDouble (33 / 2000) = 1188950301625811 / 2 ^ 56"
  "roundDouble (19 / 250) = 5476377146882523 / 2 ^ 56"
  "roundDouble (9 / 50) = 6485183463413514 / 2 ^ 55"
  using double_literals by simp_all

lemma double_sample_products:
  "roundDouble (1000 * roundDouble (9 / 50)) = 180"
  "roundDouble (1000 * roundDouble (33 / 2000)) = 33 / 2"
  "roundDouble (1000 * roundDouble (19 / 250)) = 76"
  "roundDouble (100 * roundDouble (33 / 2000)) = 7430939385161319 / 2 ^ 52"
  by code_simp+

text \<open>A double is its own rounding.\<close>

lemma roundDouble_samples:
  "roundDouble 1000 = 1000"
  "roundDouble (1 / 2) = 1 / 2"
  "roundDouble (- (33 / 2)) = - (33 / 2)"
  by code_simp+

text \<open>Rounding keeps the sign.\<close>

lemma roundDouble_nonneg: "0 \<le> x \<Longrightarrow> 0 \<le> roundDouble x"
proof -
  assume x: "0 \<le> x"
  have p: "0 < pow2 q" for q
    by (simp add: pow2_def)
  have r: "0 \<le> roundHalfEven m" if "0 \<le> m" for m
    using that by (auto simp: roundHalfEven_def Let_def)
  show ?thesis
  proof (cases "x = 0")
    case True
    then show ?thesis by (simp add: roundDouble_def)
  next
    case False
    then have "0 < x" using x by simp
    then show ?thesis
      using p r by (simp add: roundDouble_def Let_def less_imp_le)
  qed
qed

text \<open>
  The exact calculator and the calculator on doubles return the same base value and the
  same taxes in the same order; on the sample document they agree in every amount.
\<close>

lemma calculateNFETaxes_double_shape:
  "baseValue (calculateNFETaxes_double d rules) = baseValue (calculateNFETaxes d rules)
   \<and> map fst (taxes (calculateNFETaxes_double d rules)) = map fst (taxes (calculateNFETaxes d rules))"
  by (simp add: calculateNFETaxes_double_def calculateNFETaxes_def Let_def)

lemma calculateNFETaxes_double_sample:
  "calculateNFETaxes_double sampleRecord [] = calculateNFETaxes sampleRecord []"
  by (simp add: calculateNFETaxes_double_def calculateNFETaxes_def calculateIPI_double_def
      calculateIPI_def getICMSRates_def orNumber_def orString_def taxInfoField_def Let_def
      sampleRecord_def multiplyDouble_def divideDouble_def double_sample_products)

section \<open>The claims\<close>


text \<open>
  C1, as the code has it. When \<^verbatim>\<open>searchTaxRules\<close> fails in a run in which the text was
  extracted and \<^verbatim>\<open>extractDocumentData\<close> had produced a document, \<^verbatim>\<open>processDocument\<close> does
  not complete: its \<^verbatim>\<open>catch\<close> throws the error of the search again, and the caller gets
  that error and no result.
\<close>

theorem processDocument_rethrows_retrieval_error:
  assumes "detectDocumentText svc buffer = Inr textractResponse"
      and "extractDocumentData (structuringCompletion svc) textractResponse = Inr doc"
      and "documentView doc = Inr d"
      and "searchTaxRules svc (ruleQuery d) (documentType d) None None = Inl e"
  shows "processDocument svc buffer mimeType ctx = Inl e"
  using assms by (simp add: processDocument_def andThen_def Let_def)

theorem processDocument_rethrows_retrieval_error_witness:
  "detectDocumentText searchDown ''%PDF'' = Inr ''NOTA FISCAL ELETRONICA''
   \<and> extractDocumentData (structuringCompletion searchDown) ''NOTA FISCAL ELETRONICA''
       = Inr sampleDocument
   \<and> documentView sampleDocument = Inr sampleRecord
   \<and> searchTaxRules searchDown (ruleQuery sampleRecord) (documentType sampleRecord) None None
       = Inl (ServiceError ''search unavailable'')
   \<and> processDocument searchDown ''%PDF'' ''application/pdf'' \<lparr>userId = Some 7\<rparr>
       = Inl (ServiceError ''search unavailable'')"
proof -
  have t: "detectDocumentText searchDown ''%PDF'' = Inr ''NOTA FISCAL ELETRONICA''"
    by (simp add: searchDown_def)
  show ?thesis
    using processDocument_rethrows_retrieval_error[OF t sample_extract sample_view
        searchDown_fails, of "''application/pdf''" "\<lparr>userId = Some 7\<rparr>"]
      t sample_extract sample_view searchDown_fails
    by simp
qed

text \<open>
  C1 as stated fails: with a search that is down, a document record was produced and yet
  the run returns no result with an empty rule list; it ends with the error of the search.
\<close>

theorem processDocument_retrieval_failure_counterexample:
  "extractDocumentData (structuringCompletion searchDown) ''NOTA FISCAL ELETRONICA''
     = Inr sampleDocument
   \<and> isDocumentRecord sampleDocument
   \<and> processDocument searchDown ''%PDF'' ''application/pdf'' \<lparr>userId = None\<rparr>
       = Inl (ServiceError ''search unavailable'')
   \<and> \<not> (\<exists>result. processDocument searchDown ''%PDF'' ''application/pdf'' \<lparr>userId = None\<rparr>
                     = Inr result \<and> applicableRules result = [])"
proof -
  have "processDocument searchDown ''%PDF'' ''application/pdf'' \<lparr>userId = None\<rparr>
       = Inl (ServiceError ''search unavailable'')"
    using sample_extract sample_view searchDown_fails
    by (simp add: processDocument_def andThen_def Let_def searchDown_def)
  then show ?thesis
    using sample_extract sample_is_record by simp
qed

text \<open>
  C2, as the code has it. On the document
  \<^verbatim>\<open>{totalValue: 1000, state: "SP", operationType: "VENDA", taxInfo: {}}\<close> the NFE
  calculator returns base value 1000 with ICMS 180, IPI 0, PIS 16.50 and COFINS 76, all
  exact. In general its base is \<^verbatim>\<open>totalValue || 0\<close> and every amount is a product of
  doubles, rounded to the nearest double: ICMS is the base times the quotient of the
  table's standard rate by 100, IPI is the base times \<^verbatim>\<open>0.04\<close> when
  \<^verbatim>\<open>taxInfo.ipiCategory\<close> is \<^verbatim>\<open>"basic"\<close> and 0 otherwise, PIS is the base times \<^verbatim>\<open>0.0165\<close>
  and COFINS the base times \<^verbatim>\<open>0.076\<close>.
\<close>

theorem calculateNFETaxes_double_formulas:
  "calculateNFETaxes_double
     \<lparr>documentType = dt, totalValue = Some 1000, operationType = Some ''VENDA'',
      state = Some ''SP'', municipality = m,
      taxInfo = Some \<lparr>serviceCode = None, ipiCategory = None, regime = None\<rparr>\<rparr> rules
   = \<lparr>baseValue = 1000,
      taxes = [(''ICMS'', 180), (''IPI'', 0), (''PIS'', 165 / 10), (''COFINS'', 76)]\<rparr>
   \<and> calculateNFETaxes_double d rules
   = \<lparr>baseValue = orNumber (totalValue d) 0,
      taxes =
        [(''ICMS'', roundDouble (orNumber (totalValue d) 0 *
            roundDouble (standard (getICMSRates (orString (state d) ''SP'')
                                                (orString (operationType d) ''VENDA'')) / 100))),
         (''IPI'', if taxInfoField ipiCategory d = Some ''basic''
                   then roundDouble (orNumber (totalValue d) 0 * roundDouble (4 / 100)) else 0),
         (''PIS'', roundDouble (orNumber (totalValue d) 0 * roundDouble (165 / 10000))),
         (''COFINS'', roundDouble (orNumber (totalValue d) 0 * roundDouble (76 / 1000)))]\<rparr>
   \<and> roundDouble (4 / 100) = 5764607523034235 / 2 ^ 57
   \<and> roundDouble (165 / 10000) = 1188950301625811 / 2 ^ 56
   \<and> roundDouble (76 / 1000) = 5476377146882523 / 2 ^ 56"
proof (intro conjI)
  show "calculateNFETaxes_double
     \<lparr>documentType = dt, totalValue = Some 1000, operationType = Some ''VENDA'',
      state = Some ''SP'', municipality = m,
      taxInfo = Some \<lparr>serviceCode = None, ipiCategory = None, regime = None\<rparr>\<rparr> rules
   = \<lparr>baseValue = 1000,
      taxes = [(''ICMS'', 180), (''IPI'', 0), (''PIS'', 165 / 10), (''COFINS'', 76)]\<rparr>"
    by (simp add: calculateNFETaxes_double_def calculateIPI_double_def getICMSRates_def
        orNumber_def orString_def taxInfoField_def Let_def multiplyDouble_def
        divideDouble_def double_sample_products)
  show "calculateNFETaxes_double d rules
   = \<lparr>baseValue = orNumber (totalValue d) 0,
      taxes =
        [(''ICMS'', roundDouble (orNumber (totalValue d) 0 *
            roundDouble (standard (getICMSRates (orString (state d) ''SP'')
                                                (orString (operationType d) ''VENDA'')) / 100))),
         (''IPI'', if taxInfoField ipiCategory d = Some ''basic''
                   then roundDouble (orNumber (totalValue d) 0 * roundDouble (4 / 100)) else 0),
         (''PIS'', roundDouble (orNumber (totalValue d) 0 * roundDouble (165 / 10000))),
         (''COFINS'', roundDouble (orNumber (totalValue d) 0 * roundDouble (76 / 1000)))]\<rparr>"
    by (simp add: calculateNFETaxes_double_def calculateIPI_double_def Let_def
        multiplyDouble_def divideDouble_def)
  show "roundDouble (4 / 100) = 5764607523034235 / 2 ^ 57"
    by (rule double_literals)
  show "roundDouble (165 / 10000) = 1188950301625811 / 2 ^ 56"
    by (rule double_literals)
  show "roundDouble (76 / 1000) = 5476377146882523 / 2 ^ 56"
    by (rule double_literals)
qed

text \<open>
  C2 as stated fails: at a total value of 100 the PIS amount is the double
  \<^verbatim>\<open>1.6500000000000001\<close>, which is \<open>7430939385161319 / 2 ^ 52\<close>, and not 1.65 percent of
  100.
\<close>

theorem calculateNFETaxes_rounding_counterexample:
  "map_of (taxes (calculateNFETaxes_double hundredRecord [])) ''PIS''
     = Some (7430939385161319 / 2 ^ 52)
   \<and> (7430939385161319 / 2 ^ 52 :: rat) \<noteq> 100 * (165 / 10000)"
  by (simp add: calculateNFETaxes_double_def hundredRecord_def sampleRecord_def orNumber_def
      Let_def multiplyDouble_def double_sample_products)

text \<open>
  C3, at the failing input. \<^verbatim>\<open>processTaxRuleSearch\<close> never applies the splitter it
  constructs: a retrieved page of 1500 characters goes to the vector store as one text of
  1500 characters, together with its source, and the five best matches are asked for.
\<close>

theorem processTaxRuleSearch_indexes_unsplit_text:
  "processTaxRuleSearch svc [longDocument] query
     = vectorSearch svc [(longText, ''https://www.gov.br/receitafederal'')] query 5
   \<and> length longText = 1500"
  by (simp add: processTaxRuleSearch_def longDocument_def longText_def)

text \<open>
  C4. Let the store hold a document and a base calculation whose taxes have an ICMS
  entry \<open>v\<close>. Under the regime \<^verbatim>\<open>Simples Nacional\<close> \<^verbatim>\<open>applySpecialRegimes\<close> returns a
  calculation with the same base value, ICMS \<open>v / 2\<close>, every other tax as before and the
  same keys in the same order. Under any other regime, or none, it returns the base
  calculation itself and changes nothing.
\<close>

theorem applySpecialRegimes_halves_ICMS:
  assumes d: "cellAt s d = Some (DocumentCell doc)"
      and c: "calculationAt s b = Some c"
      and v: "map_of (taxes c) ''ICMS'' = Some v"
      and p: "p = applySpecialRegimesStore (Reference b) d r s"
  shows "(taxInfoField regime doc = Some ''Simples Nacional'' \<longrightarrow>
            (\<exists>n c'. fst p = Inr (Reference n) \<and> calculationAt (snd p) n = Some c'
               \<and> baseValue c' = baseValue c
               \<and> map_of (taxes c') = (map_of (taxes c))(''ICMS'' \<mapsto> v / 2)
               \<and> map fst (taxes c') = map fst (taxes c)))
       \<and> (taxInfoField regime doc \<noteq> Some ''Simples Nacional'' \<longrightarrow> p = (Inr (Reference b), s))"
proof -
  obtain t where b: "cellAt s b = Some (CalculationCell (baseValue c) t)"
    and t: "cellAt s t = Some (TaxesCell (taxes c))"
    using c by (auto simp: calculationAt_def split: option.splits cell.splits)
  have tlt: "t < length s" using t by (rule cellAt_less)
  note eq = applySpecialRegimesStore_calculation[OF d b t, of r]
  show ?thesis
  proof (cases "taxInfoField regime doc = Some ''Simples Nacional''")
    case False
    then show ?thesis using eq p by simp
  next
    case True
    let ?ts = "AList.update ''ICMS'' (v * (1 / 2)) (taxes c)"
    let ?s' = "(s @ [CalculationCell (baseValue c) t])[t := TaxesCell ?ts]"
    have pv: "p = (Inr (Reference (length s)), ?s')"
      using eq p True v by simp
    have "calculationAt ?s' (length s) = Some \<lparr>baseValue = baseValue c, taxes = ?ts\<rparr>"
      using tlt by (simp add: calculationAt_def cellAt_def nth_append)
    moreover have "map_of ?ts = (map_of (taxes c))(''ICMS'' \<mapsto> v / 2)"
      by (simp add: update_conv')
    moreover have "map fst ?ts = map fst (taxes c)"
      using v by (rule update_keeps_keys)
    ultimately show ?thesis
      using pv True by simp
  qed
qed

theorem applySpecialRegimes_halves_ICMS_witness:
  "cellAt sampleStore 0 = Some (DocumentCell simplesRecord)
   \<and> calculationAt sampleStore 3 = Some sampleCalculation
   \<and> map_of (taxes sampleCalculation) ''ICMS'' = Some 180
   \<and> taxInfoField regime simplesRecord = Some ''Simples Nacional''
   \<and> (\<exists>n c'. fst (applySpecialRegimesStore (Reference 3) 0 1 sampleStore) = Inr (Reference n)
         \<and> calculationAt (snd (applySpecialRegimesStore (Reference 3) 0 1 sampleStore)) n = Some c'
         \<and> baseValue c' = baseValue sampleCalculation
         \<and> map_of (taxes c') = (map_of (taxes sampleCalculation))(''ICMS'' \<mapsto> 90)
         \<and> map fst (taxes c') = map fst (taxes sampleCalculation))"
proof -
  have d: "cellAt sampleStore 0 = Some (DocumentCell simplesRecord)"
    by (simp add: sampleStore_def cellAt_def)
  have c: "calculationAt sampleStore 3 = Some sampleCalculation"
    by (simp add: calculationAt_def cellAt_def sampleStore_def sampleCalculation_def)
  have v: "map_of (taxes sampleCalculation) ''ICMS'' = Some 180"
    by (simp add: sampleCalculation_def)
  have r: "taxInfoField regime simplesRecord = Some ''Simples Nacional''"
    by (simp add: simplesRecord_def sampleRecord_def taxInfoField_def)
  show ?thesis
    using applySpecialRegimes_halves_ICMS[OF d c v refl, of 1] d c v r by simp
qed

text \<open>
  C5, at the failing input. For the document type \<^verbatim>\<open>constructor\<close>, which is none of the
  four types, the registry finds the inherited \<^verbatim>\<open>Object\<close> function instead of taking the
  default: the call returns the document itself, where the NFE calculation on the same
  input is base 1000 with ICMS 180, IPI 0, PIS 16.50 and COFINS 76.
\<close>

theorem calculateTaxesWithRules_inherited_key:
  "propertyKey (documentType constructorDocument) \<notin> set [''NFE'', ''NFSE'', ''NFCE'', ''CTE'']
   \<and> calculateTaxesWithRules constructorDocument rules = Inr (TheDocument constructorDocument)
   \<and> applySpecialRegimes (Calculation (calculateNFETaxes constructorDocument rules))
         constructorDocument rules
       = Inr (Calculation sampleCalculation)"
  by (simp add: calculateTaxesWithRules_def selectCalculator_def taxCalculations_def
      callCalculator_def constructorDocument_def propertyKey_def objectPrototypeKeys_def
      applySpecialRegimes_def taxInfoField_def calculateNFETaxes_def calculateIPI_def
      getICMSRates_def orNumber_def orString_def Let_def sampleCalculation_def)

text \<open>
  C6, as the code has it. For every response of the structuring service on which
  \<^verbatim>\<open>JSON.parse(completion.choices[0].message.content)\<close> throws (the content is not JSON
  text, or there is no first choice), \<^verbatim>\<open>extractDocumentData\<close> does not raise and returns
  the default object, whose type is NFE, total value 0, state SP, operation VENDA and
  \<^verbatim>\<open>taxInfo\<close> empty. A response whose content is JSON text is returned as parsed, whatever
  its shape; a \<^verbatim>\<open>null\<close> content is parsed as the text \<^verbatim>\<open>null\<close>.
\<close>

theorem extractDocumentData_default_on_parse_failure:
  assumes "create textractResponse = Inr c"
  shows "(choices c = [] \<longrightarrow> extractDocumentData create textractResponse = Inr defaultDocument)
       \<and> (\<forall>ch rest t. choices c = ch # rest \<and> content (message ch) = Some (NotJSON t)
             \<longrightarrow> extractDocumentData create textractResponse = Inr defaultDocument)
       \<and> (\<forall>ch rest v. choices c = ch # rest \<and> content (message ch) = Some (JSONText v)
             \<longrightarrow> extractDocumentData create textractResponse = Inr v)
       \<and> (\<forall>ch rest. choices c = ch # rest \<and> content (message ch) = None
             \<longrightarrow> extractDocumentData create textractResponse = Inr JNull)
       \<and> property defaultDocument ''documentType'' = Some (JStr ''NFE'')
       \<and> property defaultDocument ''totalValue'' = Some (JNum 0)
       \<and> property defaultDocument ''state'' = Some (JStr ''SP'')
       \<and> property defaultDocument ''operationType'' = Some (JStr ''VENDA'')
       \<and> property defaultDocument ''taxInfo'' = Some (JObj [])"
  using assms
  by (simp add: extractDocumentData_def parseContent_def defaultDocument_def property_def)

theorem extractDocumentData_default_on_parse_failure_witness:
  "extractDocumentData (\<lambda>text. Inr (reply (NotJSON ''Sorry, I cannot read this document.'')))
         ''NOTA FISCAL ELETRONICA''
       = Inr defaultDocument
   \<and> extractDocumentData (\<lambda>text. Inr (reply (JSONText (JNum 42)))) ''NOTA FISCAL ELETRONICA''
       = Inr (JNum 42)
   \<and> extractDocumentData (\<lambda>text. Inr (reply (JSONText JNull))) ''NOTA FISCAL ELETRONICA''
       = Inr JNull
   \<and> extractDocumentData (\<lambda>text. Inr \<lparr>choices = []\<rparr>) ''NOTA FISCAL ELETRONICA''
       = Inr defaultDocument"
  using extractDocumentData_default_on_parse_failure
      [of "\<lambda>text. Inr (reply (NotJSON ''Sorry, I cannot read this document.''))"
          "''NOTA FISCAL ELETRONICA''" "reply (NotJSON ''Sorry, I cannot read this document.'')"]
    extractDocumentData_default_on_parse_failure
      [of "\<lambda>text. Inr (reply (JSONText (JNum 42)))" "''NOTA FISCAL ELETRONICA''"
          "reply (JSONText (JNum 42))"]
    extractDocumentData_default_on_parse_failure
      [of "\<lambda>text. Inr (reply (JSONText JNull))" "''NOTA FISCAL ELETRONICA''"
          "reply (JSONText JNull)"]
    extractDocumentData_default_on_parse_failure
      [of "\<lambda>text. Inr \<lparr>choices = []\<rparr>" "''NOTA FISCAL ELETRONICA''" "\<lparr>choices = []\<rparr>"]
  by (simp add: reply_def)

text \<open>
  C6 as stated fails: the reply \<^verbatim>\<open>{"error": "unreadable scan"}\<close> is JSON that is no document
  record, and \<^verbatim>\<open>extractDocumentData\<close> returns it as parsed instead of the default object.
\<close>

theorem extractDocumentData_nonconforming_counterexample:
  "\<not> parsesAs isDocumentRecord (reply (JSONText unreadableScan))
   \<and> extractDocumentData (\<lambda>text. Inr (reply (JSONText unreadableScan))) ''NOTA FISCAL ELETRONICA''
       = Inr unreadableScan
   \<and> unreadableScan \<noteq> defaultDocument"
  by (simp add: parsesAs_def parseContent_def reply_def isDocumentRecord_def unreadableScan_def
      extractDocumentData_def defaultDocument_def)

text \<open>
  C7, as the code has it. For every response of the judgment service on which
  \<^verbatim>\<open>JSON.parse(completion.choices[0].message.content)\<close> throws (the content is not JSON
  text, or there is no first choice), \<^verbatim>\<open>validateCompliance\<close> does not raise and returns
  the fallback: status \<^verbatim>\<open>warning\<close>, the one issue \<^verbatim>\<open>Could not parse GPT response\<close> and no
  suggestions. A response whose content is JSON text is returned as parsed, whatever its
  shape; a \<^verbatim>\<open>null\<close> content is parsed as the text \<^verbatim>\<open>null\<close>.
\<close>

theorem validateCompliance_fallback_on_parse_failure:
  assumes "create doc rules = Inr c"
  shows "(choices c = [] \<longrightarrow> validateCompliance create doc rules = Inr fallbackValidation)
       \<and> (\<forall>ch rest t. choices c = ch # rest \<and> content (message ch) = Some (NotJSON t)
             \<longrightarrow> validateCompliance create doc rules = Inr fallbackValidation)
       \<and> (\<forall>ch rest v. choices c = ch # rest \<and> content (message ch) = Some (JSONText v)
             \<longrightarrow> validateCompliance create doc rules = Inr v)
       \<and> (\<forall>ch rest. choices c = ch # rest \<and> content (message ch) = None
             \<longrightarrow> validateCompliance create doc rules = Inr JNull)
       \<and> fallbackValidation =
           JObj [(''status'', JStr ''warning''),
                 (''issues'', JArr [JStr ''Could not parse GPT response'']),
                 (''suggestions'', JArr [])]"
  using assms
  by (simp add: validateCompliance_def parseContent_def fallbackValidation_def)

theorem validateCompliance_fallback_on_parse_failure_witness:
  "validateCompliance (\<lambda>doc rules. Inr (reply (NotJSON ''The document looks compliant.'')))
         sampleDocument []
       = Inr fallbackValidation
   \<and> validateCompliance (\<lambda>doc rules. Inr (reply (JSONText (JStr ''ok'')))) sampleDocument []
       = Inr (JStr ''ok'')
   \<and> validateCompliance (\<lambda>doc rules. Inr (reply (JSONText JNull))) sampleDocument []
       = Inr JNull
   \<and> validateCompliance (\<lambda>doc rules. Inr \<lparr>choices = []\<rparr>) sampleDocument []
       = Inr fallbackValidation"
  using validateCompliance_fallback_on_parse_failure
      [of "\<lambda>doc rules. Inr (reply (NotJSON ''The document looks compliant.''))"
          sampleDocument "[]" "reply (NotJSON ''The document looks compliant.'')"]
    validateCompliance_fallback_on_parse_failure
      [of "\<lambda>doc rules. Inr (reply (JSONText (JStr ''ok'')))" sampleDocument "[]"
          "reply (JSONText (JStr ''ok''))"]
    validateCompliance_fallback_on_parse_failure
      [of "\<lambda>doc rules. Inr (reply (JSONText JNull))" sampleDocument "[]"
          "reply (JSONText JNull)"]
    validateCompliance_fallback_on_parse_failure
      [of "\<lambda>doc rules. Inr \<lparr>choices = []\<rparr>" sampleDocument "[]" "\<lparr>choices = []\<rparr>"]
  by (simp add: reply_def)

text \<open>
  C7 as stated fails: the reply \<^verbatim>\<open>{"compliant": true}\<close> is JSON that is no compliance
  result, and \<^verbatim>\<open>validateCompliance\<close> returns it as parsed instead of the fallback.
\<close>

theorem validateCompliance_nonconforming_counterexample:
  "\<not> parsesAs isComplianceResult (reply (JSONText compliantFlag))
   \<and> validateCompliance (\<lambda>doc rules. Inr (reply (JSONText compliantFlag))) sampleDocument []
       = Inr compliantFlag
   \<and> compliantFlag \<noteq> fallbackValidation"
  by (simp add: parsesAs_def parseContent_def reply_def isComplianceResult_def compliantFlag_def
      validateCompliance_def fallbackValidation_def)

text \<open>
  C8. For a document with total value \<open>v \<ge> 0\<close> and any rule list, every tax amount of
  the calculation the registry returns after the regime adjustment is at least zero. If the
  total value is raised to \<open>w \<ge> v\<close> with the other fields as they were, the calculation
  has the same taxes in the same order and no amount is smaller.
\<close>

theorem taxes_nonnegative_and_monotone:
  assumes "0 \<le> v" and "v \<le> w"
      and "calculateTaxesWithRules (d\<lparr>totalValue := Some v\<rparr>) rules = Inr (Calculation c)"
      and "calculateTaxesWithRules (d\<lparr>totalValue := Some w\<rparr>) rules' = Inr (Calculation c')"
  shows "amountsNonNegative c \<and> amountsAtMost c c'"
proof -
  let ?dv = "d\<lparr>totalValue := Some v\<rparr>" and ?dw = "d\<lparr>totalValue := Some w\<rparr>"
  have same: "selectCalculator ?dw = selectCalculator ?dv"
    by (simp add: selectCalculator_totalValue)
  consider (nfe) "selectCalculator ?dv = Own calculateNFETaxes"
    | (nfse) "selectCalculator ?dv = Own calculateNFSETaxes"
    | (nfce) "selectCalculator ?dv = Own calculateNFCETaxes"
    | (cte) "selectCalculator ?dv = Own calculateCTETaxes"
    | (inherited) key where "selectCalculator ?dv = Inherited key"
    using selectCalculator_cases[of ?dv] by blast
  then show ?thesis
  proof cases
    case nfe
    then show ?thesis
      using assms same by (intro NFE_amounts[of v w d rules c rules' c']) (simp_all add: own_calculation)
  next
    case nfse
    then show ?thesis
      using assms same by (intro NFSE_amounts[of v w d rules c rules' c']) (simp_all add: own_calculation)
  next
    case nfce
    then show ?thesis
      using assms same by (intro NFCE_amounts[of v w d rules c rules' c']) (simp_all add: own_calculation)
  next
    case cte
    then show ?thesis
      using assms same by (intro CTE_amounts[of v w d rules c rules' c']) (simp_all add: own_calculation)
  next
    case inherited
    then show ?thesis
      using assms(3) inherited_no_calculation by blast
  qed
qed

theorem taxes_nonnegative_and_monotone_witness:
  "(0::rat) \<le> 1000 \<and> (1000::rat) \<le> 2000
   \<and> calculateTaxesWithRules (simplesRecord\<lparr>totalValue := Some 1000\<rparr>) []
       = Inr (Calculation \<lparr>baseValue = 1000,
            taxes = [(''ICMS'', 90), (''IPI'', 0), (''PIS'', 165 / 10), (''COFINS'', 76)]\<rparr>)
   \<and> calculateTaxesWithRules (simplesRecord\<lparr>totalValue := Some 2000\<rparr>) []
       = Inr (Calculation \<lparr>baseValue = 2000,
            taxes = [(''ICMS'', 180), (''IPI'', 0), (''PIS'', 33), (''COFINS'', 152)]\<rparr>)
   \<and> amountsNonNegative \<lparr>baseValue = 1000,
        taxes = [(''ICMS'', 90), (''IPI'', 0), (''PIS'', 165 / 10), (''COFINS'', 76)]\<rparr>
   \<and> amountsAtMost
        \<lparr>baseValue = 1000,
         taxes = [(''ICMS'', 90), (''IPI'', 0), (''PIS'', 165 / 10), (''COFINS'', 76)]\<rparr>
        \<lparr>baseValue = 2000,
         taxes = [(''ICMS'', 180), (''IPI'', 0), (''PIS'', 33), (''COFINS'', 152)]\<rparr>"
proof -
  have a: "calculateTaxesWithRules (simplesRecord\<lparr>totalValue := Some 1000\<rparr>) []
       = Inr (Calculation \<lparr>baseValue = 1000,
            taxes = [(''ICMS'', 90), (''IPI'', 0), (''PIS'', 165 / 10), (''COFINS'', 76)]\<rparr>)"
    by (simp add: calculateTaxesWithRules_def selectCalculator_def taxCalculations_def
        propertyKey_def callCalculator_def applySpecialRegimes_def taxInfoField_def
        calculateNFETaxes_def calculateIPI_def getICMSRates_def orNumber_def orString_def
        Let_def simplesRecord_def sampleRecord_def)
  have b: "calculateTaxesWithRules (simplesRecord\<lparr>totalValue := Some 2000\<rparr>) []
       = Inr (Calculation \<lparr>baseValue = 2000,
            taxes = [(''ICMS'', 180), (''IPI'', 0), (''PIS'', 33), (''COFINS'', 152)]\<rparr>)"
    by (simp add: calculateTaxesWithRules_def selectCalculator_def taxCalculations_def
        propertyKey_def callCalculator_def applySpecialRegimes_def taxInfoField_def
        calculateNFETaxes_def calculateIPI_def getICMSRates_def orNumber_def orString_def
        Let_def simplesRecord_def sampleRecord_def)
  have le: "(0::rat) \<le> 1000" "(1000::rat) \<le> 2000"
    by simp_all
  show ?thesis
    using taxes_nonnegative_and_monotone[OF le a b] a b by simp
qed

text \<open>
  C9. Let a store hold the document at \<open>d\<close> and the rule list at \<open>r\<close>. A call of the
  registry returns the value that \<open>calculateTaxesWithRules\<close> gives for the contents of
  the two inputs alone, a second call on the resulting store returns the same value, and
  each call leaves every object that existed before it, the two inputs among them,
  unchanged.
\<close>

theorem calculateTaxesWithRules_deterministic:
  assumes d: "cellAt s d = Some (DocumentCell doc)" and r: "cellAt s r = Some (RulesCell rules)"
      and p1: "p1 = calculateTaxesWithRulesStore d r s"
      and p2: "p2 = calculateTaxesWithRulesStore d r (snd p1)"
  shows "outcomeIn p1 = Some (calculateTaxesWithRules doc rules)
       \<and> outcomeIn p2 = outcomeIn p1
       \<and> take (length s) (snd p1) = s
       \<and> take (length (snd p1)) (snd p2) = snd p1
       \<and> cellAt (snd p2) d = Some (DocumentCell doc)
       \<and> cellAt (snd p2) r = Some (RulesCell rules)"
proof -
  have first: "outcomeIn p1 = Some (calculateTaxesWithRules doc rules)"
    and keep1: "take (length s) (snd p1) = s"
    using store_refines[OF d r] by (simp_all add: p1)
  have d1: "cellAt (snd p1) d = Some (DocumentCell doc)"
    using cellAt_prefix[OF keep1 cellAt_less[OF d]] d by simp
  have r1: "cellAt (snd p1) r = Some (RulesCell rules)"
    using cellAt_prefix[OF keep1 cellAt_less[OF r]] r by simp
  have second: "outcomeIn p2 = Some (calculateTaxesWithRules doc rules)"
    and keep2: "take (length (snd p1)) (snd p2) = snd p1"
    using store_refines[OF d1 r1] by (simp_all add: p2)
  have d2: "cellAt (snd p2) d = Some (DocumentCell doc)"
    using cellAt_prefix[OF keep2 cellAt_less[OF d1]] d1 by simp
  have r2: "cellAt (snd p2) r = Some (RulesCell rules)"
    using cellAt_prefix[OF keep2 cellAt_less[OF r1]] r1 by simp
  show ?thesis
    using first second keep1 keep2 d2 r2 by simp
qed

theorem calculateTaxesWithRules_deterministic_witness:
  "cellAt sampleStore 0 = Some (DocumentCell simplesRecord)
   \<and> cellAt sampleStore 1 = Some (RulesCell [])
   \<and> outcomeIn (calculateTaxesWithRulesStore 0 1 sampleStore)
       = Some (calculateTaxesWithRules simplesRecord [])
   \<and> outcomeIn (calculateTaxesWithRulesStore 0 1 (snd (calculateTaxesWithRulesStore 0 1 sampleStore)))
       = outcomeIn (calculateTaxesWithRulesStore 0 1 sampleStore)
   \<and> take (length sampleStore) (snd (calculateTaxesWithRulesStore 0 1 sampleStore)) = sampleStore"
proof -
  have d: "cellAt sampleStore 0 = Some (DocumentCell simplesRecord)"
    by (simp add: sampleStore_def cellAt_def)
  have r: "cellAt sampleStore 1 = Some (RulesCell [])"
    by (simp add: sampleStore_def cellAt_def)
  show ?thesis
    using calculateTaxesWithRules_deterministic[OF d r refl refl] d r by simp
qed

text \<open>
  C10. \<^verbatim>\<open>validateNFeStructure\<close> ends with an error and without a request to SEFAZ exactly
  when the access key is missing or empty, the issuer's CNPJ is missing or empty, or the
  total value is missing, zero or negative. A record that passes the three checks is sent
  to SEFAZ, with one request for its access key, and the outcome of that validation is
  the outcome of the function.
\<close>

theorem validateNFeStructure_checks:
  "(falsyString (chaveAcesso n) \<or> falsyString (emitenteCnpj n) \<or> invalidTotal (valorTotal n))
     = (\<exists>e. validateNFeStructure get n = (Inl e, []))
   \<and> (chaveAcesso n = Some chave \<and> chave \<noteq> [] \<and> \<not> falsyString (emitenteCnpj n)
        \<and> \<not> invalidTotal (valorTotal n)
      \<longrightarrow> validateNFeStructure get n = validateNFeWithSEFAZ get chave
          \<and> snd (validateNFeStructure get n) = [sefazUrl chave])"
proof -
  have sent: "snd (validateNFeWithSEFAZ get k) = [sefazUrl k]" for k
    by (simp add: validateNFeWithSEFAZ_def Let_def split: sum.splits option.splits)
  have no_empty: "validateNFeWithSEFAZ get k \<noteq> (Inl e, [])" for k e
    using sent[of k] by (cases "validateNFeWithSEFAZ get k") auto
  show ?thesis
    using sent no_empty
    by (auto simp: validateNFeStructure_def falsyString_def split: option.splits)
qed

theorem validateNFeStructure_checks_witness:
  "chaveAcesso sampleNFe = Some ''35200114200166000187550010000000071123456789''
   \<and> \<not> falsyString (emitenteCnpj sampleNFe) \<and> \<not> invalidTotal (valorTotal sampleNFe)
   \<and> validateNFeStructure sefazAccepts sampleNFe
       = (Inr \<lparr>valido = True, detail = ''autorizada''\<rparr>,
          [sefazUrl ''35200114200166000187550010000000071123456789''])
   \<and> invalidTotal (valorTotal (sampleNFe\<lparr>valorTotal := Some 0\<rparr>))
   \<and> (\<exists>e. validateNFeStructure sefazAccepts (sampleNFe\<lparr>valorTotal := Some 0\<rparr>) = (Inl e, []))"
proof -
  have k: "chaveAcesso sampleNFe = Some ''35200114200166000187550010000000071123456789''"
    by (simp add: sampleNFe_def)
  have c: "\<not> falsyString (emitenteCnpj sampleNFe)"
    by (simp add: sampleNFe_def emitenteCnpj_def falsyString_def)
  have t: "\<not> invalidTotal (valorTotal sampleNFe)"
    by (simp add: sampleNFe_def invalidTotal_def falsyNumber_def)
  have z: "invalidTotal (valorTotal (sampleNFe\<lparr>valorTotal := Some 0\<rparr>))"
    by (simp add: invalidTotal_def falsyNumber_def)
  have s: "validateNFeWithSEFAZ sefazAccepts ''35200114200166000187550010000000071123456789''
      = (Inr \<lparr>valido = True, detail = ''autorizada''\<rparr>,
         [sefazUrl ''35200114200166000187550010000000071123456789''])"
    by (simp add: validateNFeWithSEFAZ_def sefazAccepts_def Let_def)
  show ?thesis
    using validateNFeStructure_checks
        [of sampleNFe sefazAccepts "''35200114200166000187550010000000071123456789''"]
      validateNFeStructure_checks
        [of "sampleNFe\<lparr>valorTotal := Some 0\<rparr>" sefazAccepts "''''"]
      k c t z s
    by simp
qed

end
